theory Spec2Isabelle
  imports Main
begin

section \<open>Data model\<close>

text \<open>
  The container auto-update task of \<^verbatim>\<open>src/lib/server/scheduler/tasks/container-update.ts\<close>.
  Image identities and image references are strings in the source; the environment id,
  which the source hands unchanged to every collaborator call, and the timestamps
  (\<^verbatim>\<open>startedAt\<close>, \<^verbatim>\<open>completedAt\<close>, \<^verbatim>\<open>duration\<close>) are left out of the model.
\<close>

type_synonym image_id = string
type_synonym image_ref = string

record VulnerabilitySeverity =
  critical :: int
  high :: int
  medium :: int
  low :: int
  negligible :: int
  unknown :: int

record ScanResult =
  imageName :: string
  scanner :: string
  scannedAt :: string
  scanDuration :: int
  summary :: VulnerabilitySeverity
  vulnerabilities :: "string list"
  scanError :: "string option"

datatype Severity = Critical | High | Medium | Low | Negligible

datatype VulnerabilityCriteria = never | any_finding | at_or_above Severity | more_than_current

record ScanOutcome =
  blocked :: bool
  reason :: "string option"
  scanResults :: "ScanResult list option"
  scanSummary :: "VulnerabilitySeverity option"

record ScannerCounts =
  srScanner :: string
  srCritical :: int
  srHigh :: int
  srMedium :: int
  srLow :: int
  srNegligible :: int
  srUnknown :: int

record ScanDetail =
  sdSummary :: "VulnerabilitySeverity option"
  sdScanners :: "string list"
  sdScannedAt :: "string option"
  sdScannerResults :: "ScannerCounts list"

record ContainerDetail =
  cdName :: string
  cdStatus :: string
  cdBlockReason :: "string option"
  cdScannerResults :: "ScannerCounts list option"

record ExecutionDetails =
  edMode :: string
  edNewDigest :: "string option"
  edCriteria :: VulnerabilityCriteria
  edReason :: "string option"
  edBlockReason :: "string option"
  edSummary :: "nat \<times> nat \<times> nat \<times> nat"
  edContainers :: "ContainerDetail list"
  edScanResult :: "ScanDetail option"

datatype Details = ReasonOnly string | Full ExecutionDetails

datatype Status = running | success | failed | skipped

record ExecutionUpdate =
  status :: "Status option"
  errorMessage :: "string option"
  details :: "Details option"

record ExecutionCreate =
  scheduleType :: string
  scheduleId :: int
  entityName :: string
  triggeredBy :: string
  initialStatus :: Status

record Notification =
  kind :: string
  title :: string
  message :: string
  severity :: string

subsection \<open>Runtime inspection data\<close>

record NetConf =
  Aliases :: "string list option"
  DNSNames :: "string list option"
  IPv4Address :: "string option"
  IPv6Address :: "string option"
  GwPriority :: "int option"

record ContainerConfig =
  cfgImage :: "string option"
  cfgLabels :: "(string \<rightharpoonup> string) option"

record InspectData =
  Image :: image_id
  Config :: "ContainerConfig option"
  Running :: bool
  NetworkMode :: "string option"
  Networks :: "(string \<times> NetConf) list option"

record Container =
  cid :: string
  cname :: string
  inspect :: InspectData

record ContainerOptions =
  optName :: string
  optImage :: string
  networkAliases :: "string list option"
  networkIpv4Address :: "string option"

record NetworkInfo =
  netName :: string
  aliases :: "string list"
  ipv4Address :: "string option"
  ipv6Address :: "string option"
  gwPriority :: "int option"

record RegistryCheck =
  hasUpdate :: bool
  registryDigest :: "string option"
  isLocalImage :: bool
  checkError :: "string option"

record ComposeLookup =
  lookupSuccess :: bool
  composePath :: "string option"

record StackResult =
  stackSuccess :: bool
  stackError :: "string option"

record ScanProgress =
  progressScanner :: "string option"
  progressMessage :: "string option"
  progressOutput :: "string option"

subsection \<open>Collaborator calls\<close>

text \<open>
  \<^verbatim>\<open>removeTempImage\<close> takes one string in the source and is called with an image identity
  (lines 654, 680) and with a tag reference (line 697); the model keeps the two apart.
\<close>

datatype image_target = ById image_id | ByTag image_ref

datatype call =
    CreateScheduleExecution ExecutionCreate
  | UpdateScheduleExecution ExecutionUpdate
  | UpdateAutoUpdateLastChecked string
  | UpdateAutoUpdateLastUpdated string
  | GetScannerSettings
  | GetAutoUpdateSettingById int
  | ListContainers
  | InspectContainer string
  | CheckImageUpdateAvailable image_ref image_id
  | GetStackComposeFile string "string option"
  | PullStackService string string
  | UpdateStackService string string
  | PullImage image_ref
  | GetImageIdByTag image_ref
  | TagImage image_id string string
  | RemoveTempImage image_target
  | ScanImage image_id
  | SaveVulnerabilityScan image_id ScanResult
  | GetCombinedScanForImage image_id
  | SendEventNotification Notification
  | StopContainer string
  | RemoveContainer string bool
  | CreateContainer ContainerOptions
  | ConnectContainerToNetwork string string NetworkInfo
  | StartContainer string

text \<open>
  The state one run works on: the runtime's tag table and containers, the execution
  ledger (the record created and the updates it accepted, in order), the notifications
  delivered, the log lines, and the calls issued so far.
\<close>

record state =
  tags :: "(string \<times> string) \<rightharpoonup> image_id"
  containers :: "Container list"
  execution :: "ExecutionCreate option"
  writes :: "ExecutionUpdate list"
  notifications :: "Notification list"
  logs :: "string list"
  trace :: "call list"

text \<open>
  The collaborators. Every awaited call may throw: \<open>fault\<close> says, from the calls issued
  so far and the call at hand, whether it throws and with which message. The other
  fields are what the collaborators answer, and the helpers of \<^verbatim>\<open>update-utils\<close> and
  \<^verbatim>\<open>docker\<close> whose code is not part of the sources at hand.
\<close>

record world =
  fault :: "call list \<Rightarrow> call \<Rightarrow> string option"
  registryImage :: "call list \<Rightarrow> image_ref \<Rightarrow> image_id"
  registryAnswer :: "call list \<Rightarrow> image_ref \<Rightarrow> image_id \<Rightarrow> RegistryCheck"
  scannerSetting :: "call list \<Rightarrow> string"
  updateSetting :: "call list \<Rightarrow> int \<Rightarrow> VulnerabilityCriteria option"
  scanAnswer :: "call list \<Rightarrow> image_id \<Rightarrow> ScanResult list"
  scanProgress :: "call list \<Rightarrow> image_id \<Rightarrow> ScanProgress list"
  cachedScan :: "call list \<Rightarrow> image_id \<Rightarrow> VulnerabilitySeverity option"
  composeLookup :: "call list \<Rightarrow> string \<Rightarrow> ComposeLookup"
  pullService :: "call list \<Rightarrow> string \<Rightarrow> string \<Rightarrow> StackResult"
  updateService :: "call list \<Rightarrow> string \<Rightarrow> string \<Rightarrow> StackResult"
  createdContainer :: "call list \<Rightarrow> ContainerOptions \<Rightarrow> Container"
  parseImageNameAndTag :: "image_ref \<Rightarrow> string \<times> string"
  getTempImageTag :: "image_ref \<Rightarrow> image_ref"
  isDigestBasedImage :: "image_ref \<Rightarrow> bool"
  isSystemContainer :: "image_ref \<Rightarrow> string option"
  extractContainerOptions :: "InspectData \<Rightarrow> ContainerOptions"

section \<open>Control flow: values, early returns and exceptions\<close>

text \<open>
  A step ends with a value, with a \<^verbatim>\<open>return\<close> from the enclosing function, or with a
  thrown error (its message).
\<close>

datatype ('r, 'a) res = Throw string | Ret 'r | Val 'a

type_synonym ('r, 'a) prog = "state \<Rightarrow> ('r, 'a) res \<times> state"

definition val :: "'a \<Rightarrow> ('r, 'a) prog" where
  "val x = (\<lambda>s. (Val x, s))"

definition ret :: "'r \<Rightarrow> ('r, 'a) prog" where
  "ret r = (\<lambda>s. (Ret r, s))"

definition throw :: "string \<Rightarrow> ('r, 'a) prog" where
  "throw e = (\<lambda>s. (Throw e, s))"

definition bnd :: "('r, 'a) prog \<Rightarrow> ('a \<Rightarrow> ('r, 'b) prog) \<Rightarrow> ('r, 'b) prog" where
  "bnd m f = (\<lambda>s. case m s of
       (Val x, s') \<Rightarrow> f x s'
     | (Ret r, s') \<Rightarrow> (Ret r, s')
     | (Throw e, s') \<Rightarrow> (Throw e, s'))"

definition seq :: "('r, 'a) prog \<Rightarrow> ('r, 'b) prog \<Rightarrow> ('r, 'b) prog" where
  "seq m n = bnd m (\<lambda>_. n)"

definition try_catch :: "('r, 'a) prog \<Rightarrow> (string \<Rightarrow> ('r, 'a) prog) \<Rightarrow> ('r, 'a) prog" where
  "try_catch m h = (\<lambda>s. case m s of
       (Throw e, s') \<Rightarrow> h e s'
     | (Ret r, s') \<Rightarrow> (Ret r, s')
     | (Val x, s') \<Rightarrow> (Val x, s'))"

text \<open>
  Calling a function: its \<^verbatim>\<open>return\<close> is the value of the call. The functions called
  this way (\<^verbatim>\<open>scanAndCheckBlock\<close>, \<^verbatim>\<open>recreateContainer\<close>) leave through a
  \<^verbatim>\<open>return\<close> on every path.
\<close>

definition call_fn :: "('a, 'a) prog \<Rightarrow> ('r, 'a) prog" where
  "call_fn m = (\<lambda>s. case m s of
       (Ret x, s') \<Rightarrow> (Val x, s')
     | (Val x, s') \<Rightarrow> (Val x, s')
     | (Throw e, s') \<Rightarrow> (Throw e, s'))"

text \<open>\<^verbatim>\<open>Promise.all\<close> of two calls: both are issued, the first rejection is thrown.\<close>

definition both :: "('r, 'a) prog \<Rightarrow> ('r, 'b) prog \<Rightarrow> ('r, 'a \<times> 'b) prog" where
  "both m n = (\<lambda>s. case m s of (r1, s1) \<Rightarrow> (case n s1 of (r2, s2) \<Rightarrow>
     (case r1 of
        Throw e \<Rightarrow> (Throw e, s2)
      | Ret r \<Rightarrow> (Ret r, s2)
      | Val a \<Rightarrow> (case r2 of
            Throw e \<Rightarrow> (Throw e, s2)
          | Ret r \<Rightarrow> (Ret r, s2)
          | Val b \<Rightarrow> (Val (a, b), s2)))))"

fun for_each :: "'x list \<Rightarrow> ('x \<Rightarrow> ('r, unit) prog) \<Rightarrow> ('r, unit) prog" where
  "for_each [] f = val ()"
| "for_each (x # xs) f = seq (f x) (for_each xs f)"

text \<open>
  A collaborator call: it is recorded, then either throws (leaving the state as it was)
  or takes effect and answers.
\<close>

definition invoke :: "world \<Rightarrow> call \<Rightarrow> (state \<Rightarrow> state) \<Rightarrow> (state \<Rightarrow> 'a) \<Rightarrow> ('r, 'a) prog" where
  "invoke w c eff ans = (\<lambda>s.
     case fault w (trace s) c of
       Some msg \<Rightarrow> (Throw msg, s\<lparr>trace := trace s @ [c]\<rparr>)
     | None \<Rightarrow> (Val (ans s), (eff s)\<lparr>trace := trace s @ [c]\<rparr>))"

text \<open>
  The logger of lines 322-325: it appends to the execution log without awaiting, so it
  never throws. Log lines keep the source's fixed text and the interpolated strings;
  interpolated numbers and truncated identities are left out.
\<close>

definition log :: "string \<Rightarrow> ('r, unit) prog" where
  "log msg = (\<lambda>s. (Val (), s\<lparr>logs := logs s @ [msg]\<rparr>))"

definition truthy :: "string option \<Rightarrow> bool" where
  "truthy x = (case x of None \<Rightarrow> False | Some v \<Rightarrow> v \<noteq> [])"


definition strOf :: "string option \<Rightarrow> string" where
  "strOf x = (case x of None \<Rightarrow> [] | Some v \<Rightarrow> v)"

definition run_if :: "bool \<Rightarrow> ('r, unit) prog \<Rightarrow> ('r, unit) prog" where
  "run_if c m = (if c then m else val ())"

section \<open>Helpers of update-utils\<close>

text \<open>
  Modelled from the spec: \<^verbatim>\<open>combineScanSummaries\<close> of \<^verbatim>\<open>update-utils\<close>, whose code is not
  among the sources. Section 4.4 step 2: the scanners' summaries are combined by summing
  each severity bucket.
\<close>

definition addSeverity :: "VulnerabilitySeverity \<Rightarrow> VulnerabilitySeverity \<Rightarrow> VulnerabilitySeverity" where
  "addSeverity a b = \<lparr>critical = critical a + critical b, high = high a + high b,
     medium = medium a + medium b, low = low a + low b,
     negligible = negligible a + negligible b, unknown = unknown a + unknown b\<rparr>"

definition combineScanSummaries :: "ScanResult list \<Rightarrow> VulnerabilitySeverity" where
  "combineScanSummaries rs = foldl addSeverity
     \<lparr>critical = 0, high = 0, medium = 0, low = 0, negligible = 0, unknown = 0\<rparr>
     (map summary rs)"

text \<open>
  Modelled from the spec: \<^verbatim>\<open>shouldBlockUpdate\<close> of \<^verbatim>\<open>update-utils\<close>, whose code is not
  among the sources. Section 3 names the shapes of the policy: never block; block on
  any finding; block on findings at or above a severity threshold; block only if the new
  image has more findings than the running one. Section 4.4 step 4: the policy maps
  (criteria, new summary, current summary) to blocked or allowed plus a reason. With no
  summary of the running image the comparison cannot reject.
\<close>

definition totalFindings :: "VulnerabilitySeverity \<Rightarrow> int" where
  "totalFindings v = critical v + high v + medium v + low v + negligible v + unknown v"

fun findingsAtOrAbove :: "Severity \<Rightarrow> VulnerabilitySeverity \<Rightarrow> int" where
  "findingsAtOrAbove Critical v = critical v"
| "findingsAtOrAbove High v = critical v + high v"
| "findingsAtOrAbove Medium v = critical v + high v + medium v"
| "findingsAtOrAbove Low v = critical v + high v + medium v + low v"
| "findingsAtOrAbove Negligible v = critical v + high v + medium v + low v + negligible v"

fun severityName :: "Severity \<Rightarrow> string" where
  "severityName Critical = ''critical''"
| "severityName High = ''high''"
| "severityName Medium = ''medium''"
| "severityName Low = ''low''"
| "severityName Negligible = ''negligible''"

fun shouldBlockUpdate ::
  "VulnerabilityCriteria \<Rightarrow> VulnerabilitySeverity \<Rightarrow> VulnerabilitySeverity option \<Rightarrow> bool \<times> string" where
  "shouldBlockUpdate never new cur = (False, [])"
| "shouldBlockUpdate any_finding new cur =
     (if totalFindings new > 0 then (True, ''vulnerabilities found'') else (False, []))"
| "shouldBlockUpdate (at_or_above t) new cur =
     (if findingsAtOrAbove t new > 0
      then (True, ''findings at or above '' @ severityName t) else (False, []))"
| "shouldBlockUpdate more_than_current new None = (False, [])"
| "shouldBlockUpdate more_than_current new (Some c) =
     (if totalFindings new > totalFindings c
      then (True, ''more vulnerabilities than the current image'') else (False, []))"

section \<open>Collaborators\<close>

subsection \<open>Execution ledger, settings, scan history, notifications\<close>

definition createScheduleExecution :: "world \<Rightarrow> ExecutionCreate \<Rightarrow> ('r, unit) prog" where
  "createScheduleExecution w c =
     invoke w (CreateScheduleExecution c) (\<lambda>s. s\<lparr>execution := Some c\<rparr>) (\<lambda>_. ())"

definition updateScheduleExecution :: "world \<Rightarrow> ExecutionUpdate \<Rightarrow> ('r, unit) prog" where
  "updateScheduleExecution w u =
     invoke w (UpdateScheduleExecution u) (\<lambda>s. s\<lparr>writes := writes s @ [u]\<rparr>) (\<lambda>_. ())"

definition updateAutoUpdateLastChecked :: "world \<Rightarrow> string \<Rightarrow> ('r, unit) prog" where
  "updateAutoUpdateLastChecked w n = invoke w (UpdateAutoUpdateLastChecked n) (\<lambda>s. s) (\<lambda>_. ())"

definition updateAutoUpdateLastUpdated :: "world \<Rightarrow> string \<Rightarrow> ('r, unit) prog" where
  "updateAutoUpdateLastUpdated w n = invoke w (UpdateAutoUpdateLastUpdated n) (\<lambda>s. s) (\<lambda>_. ())"

definition getScannerSettings :: "world \<Rightarrow> ('r, string) prog" where
  "getScannerSettings w = invoke w GetScannerSettings (\<lambda>s. s) (\<lambda>s. scannerSetting w (trace s))"

definition getAutoUpdateSettingById :: "world \<Rightarrow> int \<Rightarrow> ('r, VulnerabilityCriteria option) prog" where
  "getAutoUpdateSettingById w i =
     invoke w (GetAutoUpdateSettingById i) (\<lambda>s. s) (\<lambda>s. updateSetting w (trace s) i)"

definition saveVulnerabilityScan :: "world \<Rightarrow> image_id \<Rightarrow> ScanResult \<Rightarrow> ('r, unit) prog" where
  "saveVulnerabilityScan w img r = invoke w (SaveVulnerabilityScan img r) (\<lambda>s. s) (\<lambda>_. ())"

definition getCombinedScanForImage :: "world \<Rightarrow> image_id \<Rightarrow> ('r, VulnerabilitySeverity option) prog" where
  "getCombinedScanForImage w img =
     invoke w (GetCombinedScanForImage img) (\<lambda>s. s) (\<lambda>s. cachedScan w (trace s) img)"

definition sendEventNotification :: "world \<Rightarrow> Notification \<Rightarrow> ('r, unit) prog" where
  "sendEventNotification w n =
     invoke w (SendEventNotification n) (\<lambda>s. s\<lparr>notifications := notifications s @ [n]\<rparr>) (\<lambda>_. ())"

text \<open>The scanner reports progress through the callback while it runs, then answers.\<close>

definition scanImage :: "world \<Rightarrow> image_id \<Rightarrow> (ScanProgress \<Rightarrow> ('r, unit) prog) \<Rightarrow> ('r, ScanResult list) prog" where
  "scanImage w img onProgress = (\<lambda>s.
     seq (for_each (scanProgress w (trace s) img) onProgress)
         (invoke w (ScanImage img) (\<lambda>s. s) (\<lambda>s. scanAnswer w (trace s) img)) s)"

subsection \<open>Runtime client and compose subsystem\<close>

text \<open>
  Modelled from the spec: the Runtime Client of \<^verbatim>\<open>docker\<close>, whose code is not among the
  sources. A pull overwrites the mutable tag with the fetched content (section 4.2
  step 1); tagging binds a repository:tag pair to an identity; removing an image by
  identity deletes it with every tag bound to it, removing by reference deletes that
  tag; stopping, removing, creating and starting act on the container of that id. A
  call that throws changes nothing.
\<close>

definition listContainers :: "world \<Rightarrow> ('r, Container list) prog" where
  "listContainers w = invoke w ListContainers (\<lambda>s. s) containers"

definition inspectContainer :: "world \<Rightarrow> string \<Rightarrow> ('r, InspectData) prog" where
  "inspectContainer w i = (\<lambda>s.
     case find (\<lambda>c. cid c = i) (containers s) of
       None \<Rightarrow> (Throw ''No such container'', s\<lparr>trace := trace s @ [InspectContainer i]\<rparr>)
     | Some c \<Rightarrow> invoke w (InspectContainer i) (\<lambda>s. s) (\<lambda>_. inspect c) s)"

definition checkImageUpdateAvailable :: "world \<Rightarrow> image_ref \<Rightarrow> image_id \<Rightarrow> ('r, RegistryCheck) prog" where
  "checkImageUpdateAvailable w n cur =
     invoke w (CheckImageUpdateAvailable n cur) (\<lambda>s. s) (\<lambda>s. registryAnswer w (trace s) n cur)"

definition pullImage :: "world \<Rightarrow> image_ref \<Rightarrow> ('r, unit) prog" where
  "pullImage w n = invoke w (PullImage n)
     (\<lambda>s. s\<lparr>tags := (tags s)(parseImageNameAndTag w n \<mapsto> registryImage w (trace s) n)\<rparr>) (\<lambda>_. ())"

definition getImageIdByTag :: "world \<Rightarrow> image_ref \<Rightarrow> ('r, image_id option) prog" where
  "getImageIdByTag w n =
     invoke w (GetImageIdByTag n) (\<lambda>s. s) (\<lambda>s. tags s (parseImageNameAndTag w n))"

definition tagImage :: "world \<Rightarrow> image_id \<Rightarrow> string \<Rightarrow> string \<Rightarrow> ('r, unit) prog" where
  "tagImage w i repo tag =
     invoke w (TagImage i repo tag) (\<lambda>s. s\<lparr>tags := (tags s)((repo, tag) \<mapsto> i)\<rparr>) (\<lambda>_. ())"

definition untag :: "world \<Rightarrow> image_target \<Rightarrow> ((string \<times> string) \<rightharpoonup> image_id) \<Rightarrow> ((string \<times> string) \<rightharpoonup> image_id)" where
  "untag w t m = (case t of
       ById i \<Rightarrow> (\<lambda>k. if m k = Some i then None else m k)
     | ByTag r \<Rightarrow> m(parseImageNameAndTag w r := None))"

definition removeTempImage :: "world \<Rightarrow> image_target \<Rightarrow> ('r, unit) prog" where
  "removeTempImage w t =
     invoke w (RemoveTempImage t) (\<lambda>s. s\<lparr>tags := untag w t (tags s)\<rparr>) (\<lambda>_. ())"

definition setRunning :: "string \<Rightarrow> bool \<Rightarrow> Container \<Rightarrow> Container" where
  "setRunning i b c = (if cid c = i then c\<lparr>inspect := (inspect c)\<lparr>Running := b\<rparr>\<rparr> else c)"

definition stopContainer :: "world \<Rightarrow> string \<Rightarrow> ('r, unit) prog" where
  "stopContainer w i = invoke w (StopContainer i)
     (\<lambda>s. s\<lparr>containers := map (setRunning i False) (containers s)\<rparr>) (\<lambda>_. ())"

definition startContainer :: "world \<Rightarrow> string \<Rightarrow> ('r, unit) prog" where
  "startContainer w i = invoke w (StartContainer i)
     (\<lambda>s. s\<lparr>containers := map (setRunning i True) (containers s)\<rparr>) (\<lambda>_. ())"

definition removeContainer :: "world \<Rightarrow> string \<Rightarrow> bool \<Rightarrow> ('r, unit) prog" where
  "removeContainer w i force = invoke w (RemoveContainer i force)
     (\<lambda>s. s\<lparr>containers := filter (\<lambda>c. cid c \<noteq> i) (containers s)\<rparr>) (\<lambda>_. ())"

definition createContainer :: "world \<Rightarrow> ContainerOptions \<Rightarrow> ('r, Container) prog" where
  "createContainer w opts = invoke w (CreateContainer opts)
     (\<lambda>s. s\<lparr>containers := containers s @ [createdContainer w (trace s) opts]\<rparr>)
     (\<lambda>s. createdContainer w (trace s) opts)"

definition connectContainerToNetwork :: "world \<Rightarrow> string \<Rightarrow> string \<Rightarrow> NetworkInfo \<Rightarrow> ('r, unit) prog" where
  "connectContainerToNetwork w net i info =
     invoke w (ConnectContainerToNetwork net i info) (\<lambda>s. s) (\<lambda>_. ())"

definition getStackComposeFile :: "world \<Rightarrow> string \<Rightarrow> string option \<Rightarrow> ('r, ComposeLookup) prog" where
  "getStackComposeFile w project files =
     invoke w (GetStackComposeFile project files) (\<lambda>s. s) (\<lambda>s. composeLookup w (trace s) project)"

definition pullStackService :: "world \<Rightarrow> string \<Rightarrow> string \<Rightarrow> ('r, StackResult) prog" where
  "pullStackService w project service =
     invoke w (PullStackService project service) (\<lambda>s. s) (\<lambda>s. pullService w (trace s) project service)"

definition updateStackService :: "world \<Rightarrow> string \<Rightarrow> string \<Rightarrow> ('r, StackResult) prog" where
  "updateStackService w project service =
     invoke w (UpdateStackService project service) (\<lambda>s. s) (\<lambda>s. updateService w (trace s) project service)"


section \<open>The vulnerability gate: scanAndCheckBlock (lines 111-213)\<close>

record ScanContext =
  newImageId :: image_id
  currentImageId :: image_id
  vulnerabilityCriteria :: VulnerabilityCriteria

definition progressTag :: "ScanProgress \<Rightarrow> string" where
  "progressTag p = (if truthy (progressScanner p)
     then ''['' @ strOf (progressScanner p) @ '']'' else ''[scan]'')"

definition logProgressNew :: "ScanProgress \<Rightarrow> ('r, unit) prog" where
  "logProgressNew p = seq
     (run_if (truthy (progressMessage p)) (log (progressTag p @ '' '' @ strOf (progressMessage p))))
     (run_if (truthy (progressOutput p)) (log (progressTag p @ '' '' @ strOf (progressOutput p))))"

definition logProgressCurrent :: "ScanProgress \<Rightarrow> ('r, unit) prog" where
  "logProgressCurrent p =
     run_if (truthy (progressMessage p)) (log (progressTag p @ '' '' @ strOf (progressMessage p)))"

text \<open>Lines 133-155: each result of the new image's scan is saved; a failure is logged.\<close>

definition saveNewScan :: "world \<Rightarrow> image_id \<Rightarrow> ScanResult \<Rightarrow> ('r, unit) prog" where
  "saveNewScan w img r =
     try_catch (saveVulnerabilityScan w img r)
       (\<lambda>msg. log (''Warning: Could not save scan results: '' @ msg))"

definition saveNewScans :: "world \<Rightarrow> image_id \<Rightarrow> ScanResult list \<Rightarrow> ('r, unit) prog" where
  "saveNewScans w img rs = for_each rs (saveNewScan w img)"

text \<open>Lines 176-195: each result of the running image's scan is saved; a failure is ignored.\<close>

definition saveCurrentScan :: "world \<Rightarrow> image_id \<Rightarrow> ScanResult \<Rightarrow> ('r, unit) prog" where
  "saveCurrentScan w img r = try_catch (saveVulnerabilityScan w img r) (\<lambda>_. val ())"

definition saveCurrentScans :: "world \<Rightarrow> image_id \<Rightarrow> ScanResult list \<Rightarrow> ('r, unit) prog" where
  "saveCurrentScans w img rs = for_each rs (saveCurrentScan w img)"

text \<open>Lines 157-201: the summary of the running image, for \<^verbatim>\<open>more_than_current\<close> only.\<close>

definition currentScan :: "world \<Rightarrow> ScanContext \<Rightarrow> ('r, VulnerabilitySeverity option) prog" where
  "currentScan w ctx =
     (if vulnerabilityCriteria ctx = more_than_current then
        seq (log ''Looking up cached scan for current image...'')
        (try_catch
          (bnd (getCombinedScanForImage w (currentImageId ctx)) (\<lambda>cachedScan.
             case cachedScan of
               Some c \<Rightarrow> seq (log ''Cached scan'') (val (Some c))
             | None \<Rightarrow>
                 seq (log ''No cached scan found, scanning current image...'')
                 (bnd (scanImage w (currentImageId ctx) logProgressCurrent) (\<lambda>currentScanResults.
                    if length currentScanResults > 0 then
                      seq (log ''Current image'')
                      (seq (saveCurrentScans w (currentImageId ctx) currentScanResults)
                           (val (Some (combineScanSummaries currentScanResults))))
                    else val None))))
          (\<lambda>msg. seq (log (''Warning: Could not get current scan: '' @ msg)) (val None)))
      else val None)"

text \<open>Lines 203-212: the policy decides.\<close>

definition decideBlock ::
  "VulnerabilityCriteria \<Rightarrow> ScanResult list \<Rightarrow> VulnerabilitySeverity \<Rightarrow> VulnerabilitySeverity option
     \<Rightarrow> (ScanOutcome, ScanOutcome) prog" where
  "decideBlock criteria results newSummary currentSummary =
     (case shouldBlockUpdate criteria newSummary currentSummary of
        (isBlocked, why) \<Rightarrow>
          if isBlocked then
            seq (log (''UPDATE BLOCKED: '' @ why))
                (ret \<lparr>blocked = True, reason = Some why,
                      scanResults = Some results, scanSummary = Some newSummary\<rparr>)
          else
            seq (log ''Scan passed vulnerability criteria'')
                (ret \<lparr>blocked = False, reason = None,
                      scanResults = Some results, scanSummary = Some newSummary\<rparr>))"

definition scanAndCheckBlock :: "world \<Rightarrow> ScanContext \<Rightarrow> (ScanOutcome, ScanOutcome) prog" where
  "scanAndCheckBlock w ctx =
     seq (log ''Scanning new image for vulnerabilities...'')
     (bnd (scanImage w (newImageId ctx) logProgressNew) (\<lambda>results.
        if length results = 0 then
          ret \<lparr>blocked = False, reason = None, scanResults = Some results, scanSummary = None\<rparr>
        else
          seq (log ''Scan result'')
          (seq (saveNewScans w (newImageId ctx) results)
          (bnd (currentScan w ctx) (\<lambda>currentScanSummary.
             decideBlock (vulnerabilityCriteria ctx) results
               (combineScanSummaries results) currentScanSummary)))))"

section \<open>Execution details (lines 218-290)\<close>

definition buildScannerResults :: "ScanResult list \<Rightarrow> ScannerCounts list" where
  "buildScannerResults rs = map (\<lambda>r.
     \<lparr>srScanner = scanner r, srCritical = critical (summary r), srHigh = high (summary r),
      srMedium = medium (summary r), srLow = low (summary r),
      srNegligible = negligible (summary r), srUnknown = unknown (summary r)\<rparr>) rs"

definition firstScannedAt :: "ScanResult list \<Rightarrow> string option" where
  "firstScannedAt rs = (case rs of [] \<Rightarrow> None | r # _ \<Rightarrow> Some (scannedAt r))"

definition buildBlockedDetails ::
  "string \<Rightarrow> VulnerabilityCriteria \<Rightarrow> string option \<Rightarrow> ScanResult list \<Rightarrow> VulnerabilitySeverity option
     \<Rightarrow> ExecutionDetails" where
  "buildBlockedDetails containerName criteria why results smry =
     \<lparr>edMode = ''auto_update'', edNewDigest = None, edCriteria = criteria,
      edReason = Some ''vulnerabilities_found'', edBlockReason = why,
      edSummary = (1, 0, 1, 0),
      edContainers = [\<lparr>cdName = containerName, cdStatus = ''blocked'', cdBlockReason = why,
                       cdScannerResults = Some (buildScannerResults results)\<rparr>],
      edScanResult = Some \<lparr>sdSummary = smry, sdScanners = map scanner results,
                           sdScannedAt = firstScannedAt results,
                           sdScannerResults = buildScannerResults results\<rparr>\<rparr>"

definition buildSuccessDetails ::
  "string \<Rightarrow> string option \<Rightarrow> VulnerabilityCriteria \<Rightarrow> ScanResult list option
     \<Rightarrow> VulnerabilitySeverity option \<Rightarrow> ExecutionDetails" where
  "buildSuccessDetails containerName newDigest criteria results smry =
     \<lparr>edMode = ''auto_update'', edNewDigest = newDigest, edCriteria = criteria,
      edReason = None, edBlockReason = None,
      edSummary = (1, 1, 0, 0),
      edContainers = [\<lparr>cdName = containerName, cdStatus = ''updated'', cdBlockReason = None,
                       cdScannerResults = map_option buildScannerResults results\<rparr>],
      edScanResult = (case smry of
          None \<Rightarrow> None
        | Some sm \<Rightarrow> Some \<lparr>sdSummary = Some sm,
            sdScanners = (case results of None \<Rightarrow> [] | Some rs \<Rightarrow> map scanner rs),
            sdScannedAt = (case results of None \<Rightarrow> None | Some rs \<Rightarrow> firstScannedAt rs),
            sdScannerResults = (case results of None \<Rightarrow> [] | Some rs \<Rightarrow> buildScannerResults rs)\<rparr>)\<rparr>"

text \<open>
  The terminal writes. The blocked write of lines 510-521 and 656-667 builds its details
  from \<^verbatim>\<open>scanOutcome.scanResults!\<close>: were the results missing, mapping over them throws a
  TypeError before the ledger is called.
\<close>

definition terminal :: "Status \<Rightarrow> string option \<Rightarrow> Details option \<Rightarrow> ExecutionUpdate" where
  "terminal st err det = \<lparr>status = Some st, errorMessage = err, details = det\<rparr>"

definition writeBlocked :: "world \<Rightarrow> string \<Rightarrow> VulnerabilityCriteria \<Rightarrow> ScanOutcome \<Rightarrow> ('r, unit) prog" where
  "writeBlocked w containerName criteria outcome =
     (case scanResults outcome of
        None \<Rightarrow> throw ''TypeError''
      | Some results \<Rightarrow>
          updateScheduleExecution w (terminal skipped None
            (Some (Full (buildBlockedDetails containerName criteria (reason outcome)
               results (scanSummary outcome))))))"

definition reasonText :: "string option \<Rightarrow> string" where
  "reasonText r = (case r of None \<Rightarrow> ''undefined'' | Some v \<Rightarrow> v)"

definition notifyBlocked :: "world \<Rightarrow> string \<Rightarrow> ScanOutcome \<Rightarrow> ('r, unit) prog" where
  "notifyBlocked w containerName outcome =
     sendEventNotification w \<lparr>kind = ''auto_update_blocked'', title = ''Auto-update blocked'',
       message = ''Container \"'' @ containerName @ ''\" update blocked: '' @ reasonText (reason outcome),
       severity = ''warning''\<rparr>"

definition notifySuccess :: "world \<Rightarrow> string \<Rightarrow> ('r, unit) prog" where
  "notifySuccess w containerName =
     sendEventNotification w \<lparr>kind = ''auto_update_success'', title = ''Container auto-updated'',
       message = ''Container \"'' @ containerName @ ''\" was updated to a new image version'',
       severity = ''success''\<rparr>"

definition notifyFailed :: "world \<Rightarrow> string \<Rightarrow> string \<Rightarrow> ('r, unit) prog" where
  "notifyFailed w containerName msg =
     sendEventNotification w \<lparr>kind = ''auto_update_failed'', title = ''Auto-update failed'',
       message = ''Container \"'' @ containerName @ ''\" auto-update failed: '' @ msg,
       severity = ''error''\<rparr>"


section \<open>Container recreation: recreateContainer (lines 792-910)\<close>

definition labelOf :: "InspectData \<Rightarrow> string \<Rightarrow> string option" where
  "labelOf d k = (case Config d of
       None \<Rightarrow> None
     | Some c \<Rightarrow> (case cfgLabels c of None \<Rightarrow> None | Some ls \<Rightarrow> ls k))"

definition isPrimary :: "string \<Rightarrow> string \<Rightarrow> bool" where
  "isPrimary primaryNetwork name =
     (name = primaryNetwork \<or>
      (primaryNetwork = ''bridge'' \<and> (name = ''bridge'' \<or> name = ''default'')))"

definition pushUnique :: "string \<Rightarrow> string list \<Rightarrow> string list" where
  "pushUnique a xs = (if a \<in> set xs then xs else xs @ [a])"

text \<open>Lines 854-865: the aliases to reapply on a secondary network.\<close>

definition secondaryAliases ::
  "string \<Rightarrow> NetConf \<Rightarrow> string option \<Rightarrow> string option \<Rightarrow> string list" where
  "secondaryAliases containerId netConf composeProject composeService =
     (let chosen = (case Aliases netConf of
            Some (a # as) \<Rightarrow> a # as
          | _ \<Rightarrow> (case DNSNames netConf of None \<Rightarrow> [] | Some ds \<Rightarrow> ds));
          kept = filter (\<lambda>a. a \<noteq> containerId \<and> a \<noteq> take 12 containerId) chosen
      in if truthy composeProject \<and> truthy composeService
         then pushUnique (strOf composeProject @ ''-'' @ strOf composeService)
                (pushUnique (strOf composeService) kept)
         else kept)"

definition networkInfo ::
  "string \<Rightarrow> string \<Rightarrow> NetConf \<Rightarrow> string option \<Rightarrow> string option \<Rightarrow> NetworkInfo" where
  "networkInfo containerId name netConf composeProject composeService =
     \<lparr>netName = name,
      aliases = secondaryAliases containerId netConf composeProject composeService,
      ipv4Address = (if truthy (IPv4Address netConf) then IPv4Address netConf else None),
      ipv6Address = (if truthy (IPv6Address netConf) then IPv6Address netConf else None),
      gwPriority = (case GwPriority netConf of
          None \<Rightarrow> None | Some g \<Rightarrow> if g \<noteq> 0 then Some g else None)\<rparr>"

definition joinComma :: "string list \<Rightarrow> string" where
  "joinComma xs = (case xs of [] \<Rightarrow> [] | y # ys \<Rightarrow> foldl (\<lambda>acc z. acc @ '', '' @ z) y ys)"

definition logPrimary :: "ContainerOptions \<Rightarrow> ('r, unit) prog" where
  "logPrimary opts = seq
     (case networkAliases opts of
        Some (a # as) \<Rightarrow> log (''Primary network aliases: '' @ joinComma (a # as))
      | _ \<Rightarrow> val ())
     (run_if (truthy (networkIpv4Address opts))
        (log (''Primary network static IPv4: '' @ strOf (networkIpv4Address opts))))"

text \<open>Lines 841-876: the loop over the networks the old container was attached to.\<close>

fun additionalNetworks ::
  "string \<Rightarrow> string \<Rightarrow> ContainerOptions \<Rightarrow> string option \<Rightarrow> string option
     \<Rightarrow> (string \<times> NetConf) list \<Rightarrow> NetworkInfo list \<Rightarrow> ('r, NetworkInfo list) prog" where
  "additionalNetworks containerId primaryNetwork opts project service [] acc = val acc"
| "additionalNetworks containerId primaryNetwork opts project service ((name, netConf) # rest) acc =
     (if isPrimary primaryNetwork name
      then seq (logPrimary opts)
             (additionalNetworks containerId primaryNetwork opts project service rest acc)
      else additionalNetworks containerId primaryNetwork opts project service rest
             (acc @ [networkInfo containerId name netConf project service]))"

text \<open>Lines 885-897: reconnecting; a failure is logged and the loop goes on.\<close>

definition reconnectOne :: "world \<Rightarrow> string \<Rightarrow> NetworkInfo \<Rightarrow> ('r, unit) prog" where
  "reconnectOne w newId netInfo =
     try_catch
       (seq (connectContainerToNetwork w (netName netInfo) newId netInfo)
            (log (''  Connected to: '' @ netName netInfo)))
       (\<lambda>msg. log (''  Warning: Failed to connect to \"'' @ netName netInfo @ ''\": '' @ msg))"

definition reconnect :: "world \<Rightarrow> string \<Rightarrow> NetworkInfo list \<Rightarrow> ('r, unit) prog" where
  "reconnect w newId nets = for_each nets (reconnectOne w newId)"

definition networkSettingsOf :: "InspectData \<Rightarrow> (string \<times> NetConf) list" where
  "networkSettingsOf d = (case Networks d of None \<Rightarrow> [] | Some ns \<Rightarrow> ns)"

definition primaryNetworkOf :: "InspectData \<Rightarrow> string" where
  "primaryNetworkOf d = (if truthy (NetworkMode d) then strOf (NetworkMode d) else ''bridge'')"

definition recreateBody :: "world \<Rightarrow> string \<Rightarrow> (bool, bool) prog" where
  "recreateBody w containerName =
     bnd (listContainers w) (\<lambda>cs.
     case find (\<lambda>c. cname c = containerName) cs of
       None \<Rightarrow> seq (log (''Container not found: '' @ containerName)) (ret False)
     | Some container \<Rightarrow>
         bnd (inspectContainer w (cid container)) (\<lambda>inspectData.
         let wasRunning = Running inspectData in
         seq (log (''Recreating container: '' @ containerName))
         (seq (log ''Preserving all container settings...'')
         (seq (run_if wasRunning
                 (seq (log ''Stopping container...'') (stopContainer w (cid container))))
         (seq (log ''Removing old container...'')
         (seq (removeContainer w (cid container) True)
         (let containerOptions = extractContainerOptions w inspectData;
              networkSettings = networkSettingsOf inspectData;
              primaryNetwork = primaryNetworkOf inspectData
          in case Config inspectData of
               None \<Rightarrow> throw ''TypeError''
             | Some config \<Rightarrow>
                 bnd (additionalNetworks (cid container) primaryNetwork containerOptions
                        (labelOf inspectData ''com.docker.compose.project'')
                        (labelOf inspectData ''com.docker.compose.service'')
                        networkSettings []) (\<lambda>nets.
                 seq (run_if (length nets > 0) (log ''Will reconnect to additional network(s)''))
                 (seq (log ''Creating new container...'')
                 (bnd (createContainer w containerOptions) (\<lambda>newContainer.
                 seq (reconnect w (cid newContainer) nets)
                 (seq (run_if wasRunning
                         (seq (log ''Starting new container...'')
                              (startContainer w (cid newContainer))))
                 (seq (log ''Container recreated successfully'')
                      (ret True))))))))))))))"

definition recreateContainer :: "world \<Rightarrow> string \<Rightarrow> (bool, bool) prog" where
  "recreateContainer w containerName =
     try_catch (recreateBody w containerName)
       (\<lambda>msg. seq (log (''Failed to recreate container: '' @ msg)) (ret False))"

section \<open>The update run: runContainerUpdate (lines 299-782)\<close>

text \<open>
  The source's function returns nothing; the model's return value names the
  \<^verbatim>\<open>return\<close> statement the run left through.
\<close>

datatype exit =
    NotFound | NoImageName | SelfUpdate | DigestPinned
  | LocalImage | RegistryError | UpToDate
  | ComposeBlocked | ComposeScanFailed | ComposeUpdated | ComposeFailed
  | Blocked | ScanFailed | PullFailed
  | Updated | Failed

record Target =
  containerName :: string
  imageNameFromConfig :: image_ref
  currentId :: image_id
  composeProject :: "string option"
  composeService :: "string option"
  composeConfigFiles :: "string option"
  criteria :: VulnerabilityCriteria
  shouldScan :: bool
  newDigest :: "string option"

definition isStackContainer :: "Target \<Rightarrow> bool" where
  "isStackContainer t = (truthy (composeProject t) \<and> truthy (composeService t))"

definition noScan :: ScanOutcome where
  "noScan = \<lparr>blocked = False, reason = None, scanResults = None, scanSummary = None\<rparr>"

text \<open>Lines 389-415: the running image, the compose labels, the settings.\<close>

definition readSettings :: "world \<Rightarrow> int \<Rightarrow> string \<Rightarrow> InspectData \<Rightarrow> image_ref \<Rightarrow> (exit, Target) prog" where
  "readSettings w settingId name inspectData imgName =
     seq (log (''Container is using image: '' @ imgName))
     (seq (log (''Current image ID: '' @ Image inspectData))
     (let project = labelOf inspectData ''com.docker.compose.project'';
          service = labelOf inspectData ''com.docker.compose.service'';
          files = labelOf inspectData ''com.docker.compose.project.config_files''
      in
      seq (if truthy project \<and> truthy service
           then log (''Container is part of compose stack: '' @ strOf project)
           else log ''Container is standalone (not part of a compose stack)'')
      (bnd (both (getScannerSettings w) (getAutoUpdateSettingById w settingId))
         (\<lambda>(scannerName, setting).
            val \<lparr>containerName = name,
                 imageNameFromConfig = imgName,
                 currentId = Image inspectData,
                 composeProject = project,
                 composeService = service,
                 composeConfigFiles = files,
                 criteria = (case setting of None \<Rightarrow> never | Some c \<Rightarrow> c),
                 shouldScan = (scannerName \<noteq> ''none''),
                 newDigest = None\<rparr>))))"

text \<open>Lines 346-387: the image name, the system containers, the digest-pinned images.\<close>

definition applyExclusions :: "world \<Rightarrow> int \<Rightarrow> string \<Rightarrow> InspectData \<Rightarrow> (exit, Target) prog" where
  "applyExclusions w settingId name inspectData =
     (let imgName = (case Config inspectData of None \<Rightarrow> None | Some c \<Rightarrow> cfgImage c) in
      if \<not> truthy imgName then
        seq (log ''Could not determine image name from container config'')
        (seq (updateScheduleExecution w
                (terminal failed (Some ''Could not determine image name'') None))
             (ret NoImageName))
      else
        (let systemContainerType = isSystemContainer w (strOf imgName) in
         if truthy systemContainerType then
           (let why = (if strOf systemContainerType = ''dockhand''
                       then ''Cannot auto-update Dockhand itself''
                       else ''Cannot auto-update Hawser agent'') in
            seq (log (''Skipping '' @ strOf systemContainerType @ '' container - '' @ why))
            (seq (updateScheduleExecution w (terminal skipped None (Some (ReasonOnly why))))
                 (ret SelfUpdate)))
         else if isDigestBasedImage w (strOf imgName) then
           seq (log (''Skipping '' @ name @ '' - image pinned to specific digest''))
           (seq (updateScheduleExecution w
                   (terminal skipped None (Some (ReasonOnly ''Image pinned to specific digest''))))
                (ret DigestPinned))
         else readSettings w settingId name inspectData (strOf imgName)))"

text \<open>Lines 328-344: finding the container.\<close>

definition resolveTarget :: "world \<Rightarrow> int \<Rightarrow> string \<Rightarrow> (exit, Target) prog" where
  "resolveTarget w settingId name =
     seq (log (''Checking container: '' @ name))
     (seq (updateAutoUpdateLastChecked w name)
     (bnd (listContainers w) (\<lambda>cs.
        case find (\<lambda>c. cname c = name) cs of
          None \<Rightarrow>
            seq (log (''Container not found: '' @ name))
            (seq (updateScheduleExecution w (terminal failed (Some ''Container not found'') None))
                 (ret NotFound))
        | Some container \<Rightarrow>
            bnd (inspectContainer w (cid container)) (applyExclusions w settingId name))))"

text \<open>Lines 417-458: the registry comparison and its three skips.\<close>

definition checkForUpdates :: "world \<Rightarrow> Target \<Rightarrow> (exit, Target) prog" where
  "checkForUpdates w t =
     seq (log (''Checking registry for updates: '' @ imageNameFromConfig t))
     (bnd (checkImageUpdateAvailable w (imageNameFromConfig t) (currentId t)) (\<lambda>registryCheck.
        if isLocalImage registryCheck then
          seq (log ''Local image detected - skipping (auto-update requires registry)'')
          (seq (updateScheduleExecution w
                  (terminal skipped None (Some (ReasonOnly ''Local image - no registry available''))))
               (ret LocalImage))
        else if truthy (checkError registryCheck) then
          seq (log (''Registry check error: '' @ strOf (checkError registryCheck)))
          (seq (updateScheduleExecution w
                  (terminal skipped None
                     (Some (ReasonOnly (''Registry check failed: '' @ strOf (checkError registryCheck))))))
               (ret RegistryError))
        else if \<not> hasUpdate registryCheck then
          seq (log (''Already up-to-date: '' @ containerName t @ '' is running the latest version''))
          (seq (updateScheduleExecution w
                  (terminal skipped None (Some (ReasonOnly ''Already up-to-date''))))
               (ret UpToDate))
        else
          seq (log ''Update available!'')
              (val (t\<lparr>newDigest := registryDigest registryCheck\<rparr>))))"


definition scanContext :: "Target \<Rightarrow> image_id \<Rightarrow> ScanContext" where
  "scanContext t new = \<lparr>newImageId = new, currentImageId = currentId t,
     vulnerabilityCriteria = criteria t\<rparr>"

definition restoreTag :: "world \<Rightarrow> Target \<Rightarrow> ('r, unit) prog" where
  "restoreTag w t = (case parseImageNameAndTag w (imageNameFromConfig t) of
       (oldRepo, oldTag) \<Rightarrow> tagImage w (currentId t) oldRepo oldTag)"

definition writeSuccess :: "world \<Rightarrow> Target \<Rightarrow> ScanOutcome \<Rightarrow> ('r, unit) prog" where
  "writeSuccess w t outcome =
     updateScheduleExecution w (terminal success None
       (Some (Full (buildSuccessDetails (containerName t) (newDigest t) (criteria t)
          (scanResults outcome) (scanSummary outcome)))))"

text \<open>Lines 492-545: the gate of the compose path, with the tag restored on a block.\<close>

definition composeGate :: "world \<Rightarrow> Target \<Rightarrow> image_id \<Rightarrow> (exit, ScanOutcome) prog" where
  "composeGate w t new =
     (if shouldScan t then
        try_catch
          (bnd (call_fn (scanAndCheckBlock w (scanContext t new))) (\<lambda>outcome.
             if blocked outcome then
               seq (log ''Restoring original tag to safe image...'')
               (seq (restoreTag w t)
               (seq (writeBlocked w (containerName t) (criteria t) outcome)
               (seq (notifyBlocked w (containerName t) outcome)
                    (ret ComposeBlocked))))
             else val outcome))
          (\<lambda>msg.
             seq (log (''Scan failed: '' @ msg))
             (seq (log ''Restoring original tag...'')
             (seq (restoreTag w t)
             (seq (updateScheduleExecution w
                     (terminal failed (Some (''Vulnerability scan failed: '' @ msg)) None))
                  (ret ComposeScanFailed)))))
      else val noScan)"

text \<open>Lines 476-595: pull, gate and apply through the compose subsystem.\<close>

definition composeUpdate :: "world \<Rightarrow> Target \<Rightarrow> (exit, unit) prog" where
  "composeUpdate w t =
     try_catch
       (seq (log (''Running: docker compose pull '' @ strOf (composeService t)))
       (bnd (pullStackService w (strOf (composeProject t)) (strOf (composeService t))) (\<lambda>pullResult.
          if \<not> stackSuccess pullResult then
            throw (if truthy (stackError pullResult) then strOf (stackError pullResult)
                   else ''docker compose pull failed'')
          else
            seq (log ''Compose pull completed'')
            (bnd (getImageIdByTag w (imageNameFromConfig t)) (\<lambda>newId.
               if \<not> truthy newId then throw ''Failed to get new image ID after compose pull''
               else
                 seq (log (''New image ID: '' @ strOf newId))
                 (bnd (composeGate w t (strOf newId)) (\<lambda>outcome.
                    seq (log (''Running: docker compose up -d '' @ strOf (composeService t)))
                    (bnd (updateStackService w (strOf (composeProject t)) (strOf (composeService t)))
                       (\<lambda>upResult.
                          if \<not> stackSuccess upResult then
                            throw (if truthy (stackError upResult) then strOf (stackError upResult)
                                   else ''docker compose up failed'')
                          else
                            seq (updateAutoUpdateLastUpdated w (containerName t))
                            (seq (log (''Successfully updated container: '' @ containerName t))
                            (seq (writeSuccess w t outcome)
                            (seq (notifySuccess w (containerName t))
                                 (ret ComposeUpdated)))))))))))))
       (\<lambda>msg.
          seq (log (''Compose update failed: '' @ msg))
          (seq (updateScheduleExecution w
                  (terminal failed (Some (''Stack update failed: '' @ msg)) None))
          (seq (notifyFailed w (containerName t) msg)
               (ret ComposeFailed))))"

text \<open>Lines 469-601: the compose path, or the fall through to the standalone path.\<close>

definition composeFlow :: "world \<Rightarrow> Target \<Rightarrow> (exit, unit) prog" where
  "composeFlow w t =
     (if isStackContainer t then
        bnd (getStackComposeFile w (strOf (composeProject t)) (composeConfigFiles t)) (\<lambda>composeResult.
          seq (log ''Compose lookup result'')
          (if lookupSuccess composeResult then
             seq (log (''Using compose-native update for stack: '' @ strOf (composeProject t)))
                 (composeUpdate w t)
           else
             seq (log (''No compose file found for stack \"'' @ strOf (composeProject t)
                        @ ''\" - using standalone update''))
                 (log ''TIP: Import this stack into Dockhand for compose-native updates'')))
      else val ())"

text \<open>Lines 642-689: the gate of the standalone path, with the temporary image removed.\<close>

definition standaloneGate :: "world \<Rightarrow> Target \<Rightarrow> image_id \<Rightarrow> image_ref \<Rightarrow> (exit, ScanOutcome) prog" where
  "standaloneGate w t new tempTag =
     try_catch
       (bnd (call_fn (scanAndCheckBlock w (scanContext t new))) (\<lambda>outcome.
          if blocked outcome then
            seq (log (''Removing blocked image: '' @ tempTag))
            (seq (removeTempImage w (ById new))
            (seq (writeBlocked w (containerName t) (criteria t) outcome)
            (seq (notifyBlocked w (containerName t) outcome)
                 (ret Blocked))))
          else val outcome))
       (\<lambda>msg.
          seq (log (''Scan failed: '' @ msg))
          (seq (log ''Removing temp image...'')
          (seq (removeTempImage w (ById new))
          (seq (updateScheduleExecution w
                  (terminal failed (Some (''Vulnerability scan failed: '' @ msg)) None))
               (ret ScanFailed)))))"

text \<open>Lines 620-709: pull, restore the tag, tag the new image aside, gate, promote.\<close>

definition safePull :: "world \<Rightarrow> Target \<Rightarrow> (exit, ScanOutcome) prog" where
  "safePull w t =
     (let tempTag = getTempImageTag w (imageNameFromConfig t) in
      seq (log (''Using temp tag for safe pull: '' @ tempTag))
      (try_catch
        (seq (log (''Pulling new image: '' @ imageNameFromConfig t))
        (seq (pullImage w (imageNameFromConfig t))
        (bnd (getImageIdByTag w (imageNameFromConfig t)) (\<lambda>newId.
           if \<not> truthy newId then throw ''Failed to get new image ID after pull''
           else
             seq (log (''New image pulled: '' @ strOf newId))
             (seq (log ''Restoring original tag to safe image...'')
             (case parseImageNameAndTag w (imageNameFromConfig t) of (oldRepo, oldTag) \<Rightarrow>
                seq (tagImage w (currentId t) oldRepo oldTag)
                (case parseImageNameAndTag w tempTag of (tempRepo, tempTagName) \<Rightarrow>
                   seq (tagImage w (strOf newId) tempRepo tempTagName)
                   (seq (log (''New image tagged as: '' @ tempTag))
                   (bnd (standaloneGate w t (strOf newId) tempTag) (\<lambda>outcome.
                      seq (log (''Re-tagging approved image to: '' @ imageNameFromConfig t))
                      (seq (tagImage w (strOf newId) oldRepo oldTag)
                      (seq (try_catch (removeTempImage w (ByTag tempTag)) (\<lambda>_. val ()))
                           (val outcome)))))))))))))
        (\<lambda>msg.
           seq (log (''Pull failed: '' @ msg))
           (seq (updateScheduleExecution w
                   (terminal failed (Some (''Failed to pull image: '' @ msg)) None))
                (ret PullFailed)))))"

text \<open>Lines 711-726: the pull without a scan.\<close>

definition simplePull :: "world \<Rightarrow> Target \<Rightarrow> (exit, ScanOutcome) prog" where
  "simplePull w t =
     seq (log ''Pulling update (no vulnerability scan)...'')
     (try_catch
        (seq (pullImage w (imageNameFromConfig t))
        (seq (log ''Image pulled successfully'')
             (val noScan)))
        (\<lambda>msg.
           seq (log (''Pull failed: '' @ msg))
           (seq (updateScheduleExecution w
                   (terminal failed (Some (''Failed to pull image: '' @ msg)) None))
                (ret PullFailed))))"

text \<open>Lines 613-726: the standalone path.\<close>

definition standaloneFlow :: "world \<Rightarrow> Target \<Rightarrow> (exit, ScanOutcome) prog" where
  "standaloneFlow w t =
     (if shouldScan t \<and> \<not> isDigestBasedImage w (imageNameFromConfig t)
      then safePull w t else simplePull w t)"

text \<open>Lines 728-765: recreating the container and the success bookkeeping.\<close>

definition recreateAndFinish :: "world \<Rightarrow> Target \<Rightarrow> ScanOutcome \<Rightarrow> (exit, unit) prog" where
  "recreateAndFinish w t outcome =
     seq (if isStackContainer t
          then seq (log ''External stack - recreating container directly'')
                   (log ''WARNING: Some compose settings may not be preserved'')
          else log ''Recreating standalone container...'')
     (bnd (call_fn (recreateContainer w (containerName t))) (\<lambda>ok.
        if ok then
          seq (updateAutoUpdateLastUpdated w (containerName t))
          (seq (log (''Successfully updated container: '' @ containerName t))
          (seq (writeSuccess w t outcome)
          (seq (notifySuccess w (containerName t))
               (ret Updated))))
        else throw ''Failed to recreate container''))"

text \<open>Lines 327-766: the body of the \<^verbatim>\<open>try\<close> block.\<close>

definition runBody :: "world \<Rightarrow> int \<Rightarrow> string \<Rightarrow> (exit, unit) prog" where
  "runBody w settingId name =
     bnd (resolveTarget w settingId name) (\<lambda>t0.
     bnd (checkForUpdates w t0) (\<lambda>t.
     seq (composeFlow w t)
     (bnd (standaloneFlow w t) (\<lambda>outcome.
      recreateAndFinish w t outcome))))"

text \<open>Lines 767-781: the handler at the boundary.\<close>

definition boundaryHandler :: "world \<Rightarrow> string \<Rightarrow> string \<Rightarrow> (exit, unit) prog" where
  "boundaryHandler w name msg =
     seq (log (''Error: '' @ msg))
     (seq (updateScheduleExecution w (terminal failed (Some msg) None))
     (seq (notifyFailed w name msg)
          (ret Failed)))"

definition runContainerUpdate :: "world \<Rightarrow> int \<Rightarrow> string \<Rightarrow> string \<Rightarrow> (exit, unit) prog" where
  "runContainerUpdate w settingId name trigger =
     seq (createScheduleExecution w
            \<lparr>scheduleType = ''container_update'', scheduleId = settingId, entityName = name,
             triggeredBy = trigger, initialStatus = running\<rparr>)
     (seq (updateScheduleExecution w \<lparr>status = None, errorMessage = None, details = None\<rparr>)
     (try_catch (runBody w settingId name) (boundaryHandler w name)))"


section \<open>Vocabulary of the properties\<close>

text \<open>What a step establishes from a state: the condition on its result and final state.\<close>

definition wp :: "('r, 'a) prog \<Rightarrow> (('r, 'a) res \<Rightarrow> state \<Rightarrow> bool) \<Rightarrow> state \<Rightarrow> bool" where
  "wp m Q s = (case m s of (r, s') \<Rightarrow> Q r s')"

text \<open>What a step leaves alone.\<close>

definition kept :: "state \<Rightarrow> state \<Rightarrow> bool" where
  "kept s s' = (tags s' = tags s \<and> execution s' = execution s \<and> writes s' = writes s \<and>
     notifications s' = notifications s)"

definition extends :: "(call \<Rightarrow> bool) \<Rightarrow> call list \<Rightarrow> call list \<Rightarrow> bool" where
  "extends P tr0 tr = (\<exists>cs. tr = tr0 @ cs \<and> list_all P cs)"

fun is_scan_call :: "call \<Rightarrow> bool" where
  "is_scan_call (ScanImage _) = True"
| "is_scan_call (SaveVulnerabilityScan _ _) = True"
| "is_scan_call (GetCombinedScanForImage _) = True"
| "is_scan_call _ = False"

fun is_recreate_call :: "call \<Rightarrow> bool" where
  "is_recreate_call ListContainers = True"
| "is_recreate_call (InspectContainer _) = True"
| "is_recreate_call (StopContainer _) = True"
| "is_recreate_call (RemoveContainer _ _) = True"
| "is_recreate_call (CreateContainer _) = True"
| "is_recreate_call (ConnectContainerToNetwork _ _ _) = True"
| "is_recreate_call (StartContainer _) = True"
| "is_recreate_call _ = False"

fun is_connect :: "call \<Rightarrow> bool" where
  "is_connect (ConnectContainerToNetwork _ _ _) = True"
| "is_connect _ = False"

fun is_create :: "call \<Rightarrow> bool" where
  "is_create (CreateContainer _) = True"
| "is_create _ = False"

fun is_teardown :: "call \<Rightarrow> bool" where
  "is_teardown ListContainers = True"
| "is_teardown (InspectContainer _) = True"
| "is_teardown (StopContainer _) = True"
| "is_teardown (RemoveContainer _ _) = True"
| "is_teardown _ = False"

definition scan_frame :: "state \<Rightarrow> state \<Rightarrow> bool" where
  "scan_frame s s' = (kept s s' \<and> containers s' = containers s \<and>
     extends is_scan_call (trace s) (trace s'))"

definition recreate_frame :: "state \<Rightarrow> state \<Rightarrow> bool" where
  "recreate_frame s s' = (kept s s' \<and> extends is_recreate_call (trace s) (trace s'))"

definition logs_only :: "state \<Rightarrow> state \<Rightarrow> bool" where
  "logs_only s s' = (kept s s' \<and> containers s' = containers s \<and> trace s' = trace s)"

definition connect_frame :: "state \<Rightarrow> state \<Rightarrow> bool" where
  "connect_frame s s' = (kept s s' \<and> containers s' = containers s \<and>
     extends is_connect (trace s) (trace s'))"

text \<open>Which collaborator calls never throw, or always throw, whatever came before.\<close>

definition never_fails :: "world \<Rightarrow> (call \<Rightarrow> bool) \<Rightarrow> bool" where
  "never_fails w P = (\<forall>tr c. P c \<longrightarrow> fault w tr c = None)"

definition always_fails :: "world \<Rightarrow> (call \<Rightarrow> bool) \<Rightarrow> bool" where
  "always_fails w P = (\<forall>tr c. P c \<longrightarrow> fault w tr c \<noteq> None)"

definition connect_refused :: "world \<Rightarrow> NetworkInfo \<Rightarrow> string \<Rightarrow> bool" where
  "connect_refused w n msg =
     (\<forall>tr i. fault w tr (ConnectContainerToNetwork (netName n) i n) = Some msg)"

text \<open>
  What the run learns about a container name: the container \<^verbatim>\<open>listContainers\<close> and
  \<^verbatim>\<open>find\<close> give, and the data \<^verbatim>\<open>inspectContainer\<close> gives for its id.
\<close>

definition foundContainer :: "state \<Rightarrow> string \<Rightarrow> Container option" where
  "foundContainer s name = find (\<lambda>c. cname c = name) (containers s)"

definition snapshot :: "state \<Rightarrow> string \<Rightarrow> InspectData option" where
  "snapshot s name = (case foundContainer s name of
       None \<Rightarrow> None
     | Some c \<Rightarrow> map_option inspect (find (\<lambda>c'. cid c' = cid c) (containers s)))"

text \<open>The secondary networks the loop of lines 841-876 collects, and the warning of line 895.\<close>

definition plannedNetworks :: "string \<Rightarrow> InspectData \<Rightarrow> NetworkInfo list" where
  "plannedNetworks containerId d =
     map (\<lambda>(name, netConf). networkInfo containerId name netConf
            (labelOf d ''com.docker.compose.project'') (labelOf d ''com.docker.compose.service''))
       (filter (\<lambda>(name, netConf). \<not> isPrimary (primaryNetworkOf d) name) (networkSettingsOf d))"

definition connectWarning :: "NetworkInfo \<Rightarrow> string \<Rightarrow> string" where
  "connectWarning n msg = ''  Warning: Failed to connect to \"'' @ netName n @ ''\": '' @ msg"



text \<open>Two states that differ at most in their log lines, and two steps that keep them so.\<close>

definition same_but_logs :: "state \<Rightarrow> state \<Rightarrow> bool" where
  "same_but_logs s1 s2 = (tags s1 = tags s2 \<and> containers s1 = containers s2 \<and>
     execution s1 = execution s2 \<and> writes s1 = writes s2 \<and>
     notifications s1 = notifications s2 \<and> trace s1 = trace s2)"

definition sim :: "('r, 'a) prog \<Rightarrow> ('r, 'a) prog \<Rightarrow> bool" where
  "sim m m' = (\<forall>s1 s2. same_but_logs s1 s2 \<longrightarrow>
     fst (m s1) = fst (m' s2) \<and> same_but_logs (snd (m s1)) (snd (m' s2)))"

text \<open>
  Kinds of calls: the bookkeeping of a run (ledger, settings, listing and inspecting,
  notifications), the registry comparison, and the calls that pull, tag or create.
\<close>

fun is_bookkeeping :: "call \<Rightarrow> bool" where
  "is_bookkeeping (CreateScheduleExecution _) = True"
| "is_bookkeeping (UpdateScheduleExecution _) = True"
| "is_bookkeeping (UpdateAutoUpdateLastChecked _) = True"
| "is_bookkeeping GetScannerSettings = True"
| "is_bookkeeping (GetAutoUpdateSettingById _) = True"
| "is_bookkeeping ListContainers = True"
| "is_bookkeeping (InspectContainer _) = True"
| "is_bookkeeping (SendEventNotification _) = True"
| "is_bookkeeping _ = False"

fun is_registry_query :: "call \<Rightarrow> bool" where
  "is_registry_query (CheckImageUpdateAvailable _ _) = True"
| "is_registry_query _ = False"

fun is_pull_tag_create :: "call \<Rightarrow> bool" where
  "is_pull_tag_create (PullImage _) = True"
| "is_pull_tag_create (PullStackService _ _) = True"
| "is_pull_tag_create (TagImage _ _ _) = True"
| "is_pull_tag_create (CreateContainer _) = True"
| "is_pull_tag_create _ = False"

definition is_lookup :: "call \<Rightarrow> bool" where
  "is_lookup c = (is_bookkeeping c \<or> is_registry_query c)"

definition registry_quiet :: "world \<Rightarrow> bool" where
  "registry_quiet w = (\<forall>tr n i. \<not> hasUpdate (registryAnswer w tr n i) \<and>
     \<not> truthy (checkError (registryAnswer w tr n i)) \<and> \<not> isLocalImage (registryAnswer w tr n i))"

definition started :: ExecutionUpdate where
  "started = \<lparr>status = None, errorMessage = None, details = None\<rparr>"

definition ran :: "state \<Rightarrow> state \<Rightarrow> call list" where
  "ran s s' = drop (length (trace s)) (trace s')"

definition created :: "int \<Rightarrow> string \<Rightarrow> string \<Rightarrow> ExecutionCreate" where
  "created sid name trig = \<lparr>scheduleType = ''container_update'', scheduleId = sid,
     entityName = name, triggeredBy = trig, initialStatus = running\<rparr>"

text \<open>
  The outcome of a run: the status its return statement writes, and the notification it
  sends. A run is open while no terminal status is written, and closed by its return.
\<close>

fun is_ledger_or_notice :: "call \<Rightarrow> bool" where
  "is_ledger_or_notice (CreateScheduleExecution _) = True"
| "is_ledger_or_notice (UpdateScheduleExecution _) = True"
| "is_ledger_or_notice (SendEventNotification _) = True"
| "is_ledger_or_notice _ = False"

fun exit_status :: "exit \<Rightarrow> Status" where
  "exit_status NotFound = failed"
| "exit_status NoImageName = failed"
| "exit_status SelfUpdate = skipped"
| "exit_status DigestPinned = skipped"
| "exit_status LocalImage = skipped"
| "exit_status RegistryError = skipped"
| "exit_status UpToDate = skipped"
| "exit_status ComposeBlocked = skipped"
| "exit_status ComposeScanFailed = failed"
| "exit_status ComposeUpdated = success"
| "exit_status ComposeFailed = failed"
| "exit_status Blocked = skipped"
| "exit_status ScanFailed = failed"
| "exit_status PullFailed = failed"
| "exit_status Updated = success"
| "exit_status Failed = failed"

fun exit_notice :: "exit \<Rightarrow> string list" where
  "exit_notice ComposeBlocked = [''auto_update_blocked'']"
| "exit_notice Blocked = [''auto_update_blocked'']"
| "exit_notice ComposeUpdated = [''auto_update_success'']"
| "exit_notice Updated = [''auto_update_success'']"
| "exit_notice ComposeFailed = [''auto_update_failed'']"
| "exit_notice Failed = [''auto_update_failed'']"
| "exit_notice _ = []"

definition open_run :: "state \<Rightarrow> state \<Rightarrow> bool" where
  "open_run s0 s = (writes s = writes s0 \<and> notifications s = notifications s0 \<and>
     execution s = execution s0)"

definition closed_run :: "state \<Rightarrow> exit \<Rightarrow> state \<Rightarrow> bool" where
  "closed_run s0 e s = ((\<exists>u. writes s = writes s0 @ [u] \<and> status u = Some (exit_status e)) \<and>
     map kind (notifications s) = map kind (notifications s0) @ exit_notice e \<and>
     execution s = execution s0)"

fun ledger_post :: "state \<Rightarrow> (exit, 'a) res \<Rightarrow> state \<Rightarrow> bool" where
  "ledger_post s0 (Ret e) s = closed_run s0 e s"
| "ledger_post s0 (Val x) s = open_run s0 s"
| "ledger_post s0 (Throw m) s = open_run s0 s"

fun is_notice :: "call \<Rightarrow> bool" where
  "is_notice (SendEventNotification _) = True"
| "is_notice _ = False"





text \<open>
  Failures of a run. A collaborator call that throws is absorbed when the handler around
  it lets the run go on: saving a scan record (lines 152, 194), the cached-scan lookup and
  the on-demand scan of the running image that follows it (line 198), reconnecting a
  network (line 894) and removing the temporary tag after promotion (line 698). The
  failures of a run are the calls issued after a given point that threw and are not
  absorbed. A failure is announced when the call is issued only where the handler that
  catches it sends the failure notification (lines 588, 776).
\<close>

fun is_cached_lookup :: "call \<Rightarrow> bool" where
  "is_cached_lookup (GetCombinedScanForImage _) = True"
| "is_cached_lookup _ = False"

fun absorbed :: "call list \<Rightarrow> call \<Rightarrow> bool" where
  "absorbed tr (SaveVulnerabilityScan _ _) = True"
| "absorbed tr (GetCombinedScanForImage _) = True"
| "absorbed tr (ConnectContainerToNetwork _ _ _) = True"
| "absorbed tr (RemoveTempImage (ByTag _)) = True"
| "absorbed tr (ScanImage _) = (tr \<noteq> [] \<and> is_cached_lookup (last tr))"
| "absorbed tr _ = False"


fun thrown :: "world \<Rightarrow> call list \<Rightarrow> call list \<Rightarrow> call list" where
  "thrown w tr [] = []"
| "thrown w tr (c # cs) =
     (if fault w tr c \<noteq> None \<and> \<not> absorbed tr c then [c] else []) @ thrown w (tr @ [c]) cs"

definition failures :: "world \<Rightarrow> call list \<Rightarrow> call list \<Rightarrow> call list" where
  "failures w tr0 tr = thrown w tr0 (drop (length tr0) tr)"

text \<open>What holds of the calls issued so far while a run has not failed, or has failed quietly.\<close>

definition clean :: "world \<Rightarrow> call list \<Rightarrow> call list \<Rightarrow> bool" where
  "clean w tr0 tr = (take (length tr0) tr = tr0 \<and> failures w tr0 tr = [])"




text \<open>
  The best-effort removal of the temporary tag (line 697), a terminal write with status
  skipped, and the return statements of the checks and of the compose path.
\<close>

fun is_cleanup :: "call \<Rightarrow> bool" where
  "is_cleanup (RemoveTempImage (ByTag _)) = True"
| "is_cleanup _ = False"

fun is_skip_write :: "call \<Rightarrow> bool" where
  "is_skip_write (UpdateScheduleExecution u) = (status u = Some skipped)"
| "is_skip_write _ = False"

definition early_exits :: "exit set" where
  "early_exits = {NotFound, NoImageName, SelfUpdate, DigestPinned, LocalImage, RegistryError, UpToDate}"

definition compose_exits :: "exit set" where
  "compose_exits = {ComposeBlocked, ComposeScanFailed, ComposeUpdated, ComposeFailed}"

subsection \<open>A concrete runtime\<close>

text \<open>
  The scenario of the spec: container web-1 runs image app:latest with identity sha:aaa,
  the registry serves sha:bbb. The container sits on the bridge network and on a
  secondary network backend.
\<close>

definition plainNet :: NetConf where
  "plainNet = \<lparr>Aliases = None, DNSNames = None, IPv4Address = None, IPv6Address = None,
     GwPriority = None\<rparr>"

definition web1 :: Container where
  "web1 = \<lparr>cid = ''c1'', cname = ''web-1'',
     inspect = \<lparr>Image = ''sha:aaa'',
       Config = Some \<lparr>cfgImage = Some ''app:latest'', cfgLabels = None\<rparr>,
       Running = True, NetworkMode = Some ''bridge'',
       Networks = Some [(''bridge'', plainNet), (''backend'', plainNet)]\<rparr>\<rparr>"

definition state0 :: state where
  "state0 = \<lparr>tags = [(''app'', ''latest'') \<mapsto> ''sha:aaa''], containers = [web1],
     execution = None, writes = [], notifications = [], logs = [], trace = []\<rparr>"

definition splitRef :: "image_ref \<Rightarrow> string \<times> string" where
  "splitRef n = (takeWhile (\<lambda>c. c \<noteq> CHR '':'') n,
     (case dropWhile (\<lambda>c. c \<noteq> CHR '':'') n of [] \<Rightarrow> ''latest'' | _ # tg \<Rightarrow> tg))"

definition world0 :: world where
  "world0 = \<lparr>fault = (\<lambda>_ _. None),
     registryImage = (\<lambda>_ _. ''sha:bbb''),
     registryAnswer = (\<lambda>_ _ _. \<lparr>hasUpdate = True, registryDigest = Some ''sha:bbb'',
        isLocalImage = False, checkError = None\<rparr>),
     scannerSetting = (\<lambda>_. ''none''),
     updateSetting = (\<lambda>_ _. None),
     scanAnswer = (\<lambda>_ _. []),
     scanProgress = (\<lambda>_ _. []),
     cachedScan = (\<lambda>_ _. None),
     composeLookup = (\<lambda>_ _. \<lparr>lookupSuccess = False, composePath = None\<rparr>),
     pullService = (\<lambda>_ _ _. \<lparr>stackSuccess = True, stackError = None\<rparr>),
     updateService = (\<lambda>_ _ _. \<lparr>stackSuccess = True, stackError = None\<rparr>),
     createdContainer = (\<lambda>_ opts. \<lparr>cid = ''c2'', cname = optName opts,
        inspect = \<lparr>Image = ''sha:bbb'',
          Config = Some \<lparr>cfgImage = Some (optImage opts), cfgLabels = None\<rparr>,
          Running = False, NetworkMode = Some ''bridge'', Networks = None\<rparr>\<rparr>),
     parseImageNameAndTag = splitRef,
     getTempImageTag = (\<lambda>n. n @ ''-pending''),
     isDigestBasedImage = (\<lambda>n. CHR ''@'' \<in> set n),
     isSystemContainer = (\<lambda>_. None),
     extractContainerOptions = (\<lambda>d. \<lparr>optName = ''web-1'', optImage = ''app:latest'',
        networkAliases = None, networkIpv4Address = None\<rparr>)\<rparr>"

definition backendNet :: NetworkInfo where
  "backendNet = \<lparr>netName = ''backend'', aliases = [], ipv4Address = None, ipv6Address = None,
     gwPriority = None\<rparr>"

text \<open>The same runtime with every network connect refused, and with every create refused.\<close>

definition worldNoConnect :: world where
  "worldNoConnect = world0\<lparr>fault := (\<lambda>_ c. if is_connect c then Some ''no route'' else None)\<rparr>"

definition worldNoCreate :: world where
  "worldNoCreate = world0\<lparr>fault := (\<lambda>_ c. if is_create c then Some ''no space'' else None)\<rparr>"

text \<open>
  A scanner with one finding for every image, a policy that compares with the running
  image, and a scan history that refuses the records of the running image.
\<close>

definition scanOne :: ScanResult where
  "scanOne = \<lparr>imageName = ''app:latest'', scanner = ''grype'', scannedAt = ''t1'',
     scanDuration = 1,
     summary = \<lparr>critical = 0, high = 1, medium = 0, low = 0, negligible = 0, unknown = 0\<rparr>,
     vulnerabilities = [], scanError = None\<rparr>"



text \<open>
  A registry with nothing newer than the running image, and a container whose image
  reference is pinned by digest.
\<close>

definition worldCurrent :: world where
  "worldCurrent = world0\<lparr>registryAnswer := (\<lambda>_ _ _. \<lparr>hasUpdate = False,
     registryDigest = Some ''sha:aaa'', isLocalImage = False, checkError = None\<rparr>)\<rparr>"

definition pinned1 :: Container where
  "pinned1 = \<lparr>cid = ''c1'', cname = ''web-1'',
     inspect = \<lparr>Image = ''sha:aaa'',
       Config = Some \<lparr>cfgImage = Some ''app@sha256:aaa'', cfgLabels = None\<rparr>,
       Running = True, NetworkMode = Some ''bridge'', Networks = None\<rparr>\<rparr>"

definition statePinned :: state where
  "statePinned = state0\<lparr>containers := [pinned1]\<rparr>"

text \<open>A notification sink that is down, and a registry that times out on every pull.\<close>

definition worldMuteSink :: world where
  "worldMuteSink = world0\<lparr>fault := (\<lambda>_ c. if is_notice c then Some ''sink down'' else None)\<rparr>"


text \<open>
  A ledger that refuses every write of the status skipped, with the registry that has
  nothing newer and with the registry of the scenario.
\<close>

definition worldCurrentNoSkip :: world where
  "worldCurrentNoSkip = worldCurrent\<lparr>fault := (\<lambda>_ c. if is_skip_write c then Some ''ledger busy'' else None)\<rparr>"

definition worldNoSkip :: world where
  "worldNoSkip = world0\<lparr>fault := (\<lambda>_ c. if is_skip_write c then Some ''ledger busy'' else None)\<rparr>"



definition worldScanning :: "string option \<Rightarrow> world" where
  "worldScanning cleanup = world0\<lparr>fault := (\<lambda>_ c. if is_cleanup c then cleanup else None),
     scannerSetting := (\<lambda>_. ''grype'')\<rparr>"

definition target0 :: Target where
  "target0 = \<lparr>containerName = ''web-1'', imageNameFromConfig = ''app:latest'',
     currentId = ''sha:aaa'', composeProject = None, composeService = None,
     composeConfigFiles = None, criteria = never, shouldScan = True, newDigest = None\<rparr>"

definition passed0 :: ScanOutcome where
  "passed0 = \<lparr>blocked = False, reason = None, scanResults = Some [], scanSummary = None\<rparr>"

section \<open>Properties\<close>

subsection \<open>Rules for steps\<close>

lemma wp_fst_snd: "wp m Q s = Q (fst (m s)) (snd (m s))"
  by (simp add: wp_def split: prod.splits)

lemma wp_val: "wp (val x) Q s = Q (Val x) s" by (simp add: wp_def val_def)

lemma wp_ret: "wp (ret x) Q s = Q (Ret x) s" by (simp add: wp_def ret_def)

lemma wp_throw: "wp (throw x) Q s = Q (Throw x) s" by (simp add: wp_def throw_def)

lemma wp_log: "wp (log msg) Q s = Q (Val ()) (s\<lparr>logs := logs s @ [msg]\<rparr>)" by (simp add: wp_def log_def)

lemma wp_bnd: "wp (bnd m f) Q s =
  wp m (\<lambda>r s'. case r of Val x \<Rightarrow> wp (f x) Q s' | Ret e \<Rightarrow> Q (Ret e) s' | Throw e \<Rightarrow> Q (Throw e) s') s"
  by (simp add: wp_def bnd_def split: prod.splits res.splits)

lemma wp_seq: "wp (seq m n) Q s =
  wp m (\<lambda>r s'. case r of Val x \<Rightarrow> wp n Q s' | Ret e \<Rightarrow> Q (Ret e) s' | Throw e \<Rightarrow> Q (Throw e) s') s"
  by (simp add: seq_def wp_bnd)

lemma wp_try: "wp (try_catch m h) Q s =
  wp m (\<lambda>r s'. case r of Throw e \<Rightarrow> wp (h e) Q s' | Ret e \<Rightarrow> Q (Ret e) s' | Val x \<Rightarrow> Q (Val x) s') s"
  by (simp add: wp_def try_catch_def split: prod.splits res.splits)

lemma wp_call: "wp (call_fn m) Q s =
  wp m (\<lambda>r s'. case r of Ret x \<Rightarrow> Q (Val x) s' | Val x \<Rightarrow> Q (Val x) s' | Throw e \<Rightarrow> Q (Throw e) s') s"
  by (simp add: wp_def call_fn_def split: prod.splits res.splits)

lemma wp_invoke: "wp (invoke w c eff ans) Q s =
  (case fault w (trace s) c of
     Some msg \<Rightarrow> Q (Throw msg) (s\<lparr>trace := trace s @ [c]\<rparr>)
   | None \<Rightarrow> Q (Val (ans s)) ((eff s)\<lparr>trace := trace s @ [c]\<rparr>))"
  by (simp add: wp_def invoke_def split: option.splits)

lemma wp_if: "wp (if b then m else n) Q s = (if b then wp m Q s else wp n Q s)" by simp

lemma wp_run_if: "wp (run_if b m) Q s = (if b then wp m Q s else Q (Val ()) s)"
  by (simp add: run_if_def wp_val)

lemma wp_mono: "wp m Q s \<Longrightarrow> (\<And>r s'. Q r s' \<Longrightarrow> Q' r s') \<Longrightarrow> wp m Q' s"
  by (auto simp: wp_def split: prod.splits)

lemma wpI: "(\<And>r s'. m s = (r, s') \<Longrightarrow> Q r s') \<Longrightarrow> wp m Q s"
  by (auto simp: wp_def split: prod.splits)

lemma wpD: "wp m Q s \<Longrightarrow> m s = (r, s') \<Longrightarrow> Q r s'"
  by (auto simp: wp_def split: prod.splits)

lemmas wp_simps = wp_val wp_ret wp_throw wp_log wp_bnd wp_seq wp_try wp_call wp_invoke wp_if wp_run_if

lemma wp_for_each_inv:
  assumes "I s" and step: "\<And>x s. x \<in> set xs \<Longrightarrow> I s \<Longrightarrow> wp (f x) (\<lambda>r s'. r = Val () \<and> I s') s"
  shows "wp (for_each xs f) (\<lambda>r s'. r = Val () \<and> I s') s"
  using assms
proof (induction xs arbitrary: s)
  case Nil
  then show ?case by (simp add: wp_val)
next
  case (Cons x xs)
  have "wp (f x) (\<lambda>r s'. r = Val () \<and> I s') s" using Cons.prems by simp
  then show ?case
    unfolding for_each.simps wp_seq
    apply (rule wp_mono)
    using Cons.IH Cons.prems(2) by auto
qed

lemma extends_refl [simp]: "extends P tr tr" by (simp add: extends_def)

lemma extends_snoc: "extends P tr0 tr \<Longrightarrow> P c \<Longrightarrow> extends P tr0 (tr @ [c])"
  by (auto simp: extends_def)

lemma extends_same [simp]: "extends P tr (tr @ cs) = list_all P cs"
  by (auto simp: extends_def)

lemma extends_more: "extends P tr0 tr \<Longrightarrow> list_all P cs \<Longrightarrow> extends P tr0 (tr @ cs)"
  by (auto simp: extends_def)

lemma extends_trans: "extends P a b \<Longrightarrow> extends P b c \<Longrightarrow> extends P a c"
  by (auto simp: extends_def)

lemma extends_weaken: "extends P a b \<Longrightarrow> (\<And>c. P c \<Longrightarrow> P' c) \<Longrightarrow> extends P' a b"
  by (auto simp: extends_def list_all_iff)

lemmas frame_defs = scan_frame_def recreate_frame_def kept_def

lemmas frame_intros = extends_refl extends_more

lemma wp_saveNewScans:
  "scan_frame s0 s \<Longrightarrow> wp (saveNewScans w img rs) (\<lambda>r s'. r = Val () \<and> scan_frame s0 s') s"
  unfolding saveNewScans_def
  by (rule wp_for_each_inv)
     (auto simp: wp_simps saveNewScan_def saveCurrentScan_def saveVulnerabilityScan_def frame_defs intro!: frame_intros split: option.splits)

lemma wp_saveCurrentScans:
  "scan_frame s0 s \<Longrightarrow> wp (saveCurrentScans w img rs) (\<lambda>r s'. r = Val () \<and> scan_frame s0 s') s"
  unfolding saveCurrentScans_def
  by (rule wp_for_each_inv)
     (auto simp: wp_simps saveNewScan_def saveCurrentScan_def saveVulnerabilityScan_def frame_defs intro!: frame_intros split: option.splits)

lemma wp_progress_new:
  "scan_frame s0 s \<Longrightarrow> wp (for_each ps logProgressNew) (\<lambda>r s'. r = Val () \<and> scan_frame s0 s' \<and> trace s' = trace s) s"
  by (rule wp_for_each_inv[where I="\<lambda>s'. scan_frame s0 s' \<and> trace s' = trace s", simplified])
     (auto simp: wp_simps logProgressNew_def frame_defs)

lemma wp_progress_current:
  "scan_frame s0 s \<Longrightarrow> wp (for_each ps logProgressCurrent) (\<lambda>r s'. r = Val () \<and> scan_frame s0 s' \<and> trace s' = trace s) s"
  by (rule wp_for_each_inv[where I="\<lambda>s'. scan_frame s0 s' \<and> trace s' = trace s", simplified])
     (auto simp: wp_simps logProgressCurrent_def frame_defs)

lemma wp_scanImage: "wp (scanImage w img cb) Q s =
  wp (seq (for_each (scanProgress w (trace s) img) cb)
          (invoke w (ScanImage img) (\<lambda>s. s) (\<lambda>s. scanAnswer w (trace s) img))) Q s"
  by (simp add: wp_def scanImage_def)

lemma wp_inspectContainer: "wp (inspectContainer w i) Q s =
  ((find (\<lambda>c. cid c = i) (containers s) = None \<longrightarrow>
      Q (Throw ''No such container'') (s\<lparr>trace := trace s @ [InspectContainer i]\<rparr>)) \<and>
   (\<forall>c. find (\<lambda>c. cid c = i) (containers s) = Some c \<longrightarrow>
      wp (invoke w (InspectContainer i) (\<lambda>s. s) (\<lambda>_. inspect c)) Q s))"
  by (simp add: wp_def inspectContainer_def split: option.splits)

lemma scanImage_new_wpI:
  assumes "scan_frame s0 s" "\<And>r s'. (\<forall>e. r \<noteq> Ret e) \<Longrightarrow> scan_frame s0 s' \<Longrightarrow> Q r s'"
  shows "wp (scanImage w img logProgressNew) Q s"
proof -
  have "wp (scanImage w img logProgressNew) (\<lambda>r s'. (\<forall>e. r \<noteq> Ret e) \<and> scan_frame s0 s') s"
    apply (simp add: wp_scanImage wp_seq)
    apply (rule wp_mono[OF wp_progress_new[OF assms(1)]])
    apply (auto simp: wp_simps frame_defs intro!: frame_intros split: option.splits)
    done
  then show ?thesis by (rule wp_mono) (use assms(2) in auto)
qed

lemma scanImage_current_wpI:
  assumes "scan_frame s0 s" "\<And>r s'. (\<forall>e. r \<noteq> Ret e) \<Longrightarrow> scan_frame s0 s' \<Longrightarrow> Q r s'"
  shows "wp (scanImage w img logProgressCurrent) Q s"
proof -
  have "wp (scanImage w img logProgressCurrent) (\<lambda>r s'. (\<forall>e. r \<noteq> Ret e) \<and> scan_frame s0 s') s"
    apply (simp add: wp_scanImage wp_seq)
    apply (rule wp_mono[OF wp_progress_current[OF assms(1)]])
    apply (auto simp: wp_simps frame_defs intro!: frame_intros split: option.splits)
    done
  then show ?thesis by (rule wp_mono) (use assms(2) in auto)
qed

lemma saveCurrentScans_wpI:
  assumes "scan_frame s0 s" "\<And>s'. scan_frame s0 s' \<Longrightarrow> Q (Val ()) s'"
  shows "wp (saveCurrentScans w img rs) Q s"
  by (rule wp_mono[OF wp_saveCurrentScans[OF assms(1)]]) (use assms(2) in auto)

lemma saveNewScans_wpI:
  assumes "scan_frame s0 s" "\<And>s'. scan_frame s0 s' \<Longrightarrow> Q (Val ()) s'"
  shows "wp (saveNewScans w img rs) Q s"
  by (rule wp_mono[OF wp_saveNewScans[OF assms(1)]]) (use assms(2) in auto)

lemma scan_frame_upd:
  "scan_frame s0 s \<Longrightarrow> scan_frame s0 (s\<lparr>logs := x\<rparr>)"
  "scan_frame s0 s \<Longrightarrow> is_scan_call c \<Longrightarrow> scan_frame s0 (s\<lparr>trace := trace s @ [c]\<rparr>)"
  by (auto simp: frame_defs intro!: frame_intros)

lemma currentScan_wpI:
  assumes "scan_frame s0 s" "\<And>v s'. scan_frame s0 s' \<Longrightarrow> Q (Val v) s'"
  shows "wp (currentScan w ctx) Q s"
  using assms
  apply (simp add: currentScan_def wp_simps getCombinedScanForImage_def split: option.splits)
  apply (intro conjI impI allI)
  apply (auto simp: wp_simps scan_frame_upd
      intro!: scanImage_current_wpI[where ?s0.0=s0] saveCurrentScans_wpI[where ?s0.0=s0] split: res.splits)
  done

lemma scanAndCheckBlock_wpI:
  assumes "scan_frame s0 s" "\<And>r s'. (\<forall>v. r \<noteq> Val v) \<Longrightarrow> scan_frame s0 s' \<Longrightarrow> Q r s'"
  shows "wp (scanAndCheckBlock w ctx) Q s"
  using assms
  apply (simp add: scanAndCheckBlock_def decideBlock_def wp_simps split: option.splits)
  apply (auto simp: wp_simps scan_frame_upd decideBlock_def
      intro!: scanImage_new_wpI[where ?s0.0=s0] saveNewScans_wpI[where ?s0.0=s0] currentScan_wpI[where ?s0.0=s0]
      split: res.splits prod.splits)
  done

lemmas frame_defs2 = frame_defs logs_only_def connect_frame_def

lemma wp_logPrimary: "wp (logPrimary opts) (\<lambda>r s'. r = Val () \<and> logs_only s s') s"
  by (auto simp: logPrimary_def wp_simps frame_defs2 split: option.splits list.splits)

lemma logs_only_trans: "logs_only a b \<Longrightarrow> logs_only b c \<Longrightarrow> logs_only a c"
  by (simp add: frame_defs2)

lemma wp_additionalNetworks:
  "wp (additionalNetworks i p opts pr sv nets acc)
     (\<lambda>r s'. r = Val (acc @ map (\<lambda>(name, netConf). networkInfo i name netConf pr sv)
                 (filter (\<lambda>(name, netConf). \<not> isPrimary p name) nets)) \<and> logs_only s s') s"
proof (induction nets arbitrary: acc s)
  case Nil
  then show ?case by (simp add: wp_simps frame_defs2)
next
  case (Cons a nets)
  obtain name conf where a: "a = (name, conf)" by (cases a)
  show ?case
  proof (cases "isPrimary p name")
    case True
    show ?thesis unfolding a using True
      apply (simp add: wp_seq)
      apply (rule wp_mono[OF wp_logPrimary[of opts s]])
      apply clarsimp
      apply (rule wp_mono[OF Cons.IH])
      apply (auto intro: logs_only_trans)
      done
  next
    case False
    show ?thesis unfolding a using False
      apply simp
      apply (rule wp_mono[OF Cons.IH])
      apply auto
      done
  qed
qed

lemma additionalNetworks_wpI:
  assumes "\<And>s'. logs_only s s' \<Longrightarrow>
     Q (Val (acc @ map (\<lambda>(name, netConf). networkInfo i name netConf pr sv)
                 (filter (\<lambda>(name, netConf). \<not> isPrimary p name) nets))) s'"
  shows "wp (additionalNetworks i p opts pr sv nets acc) Q s"
  by (rule wp_mono[OF wp_additionalNetworks]) (use assms in auto)

lemma wp_reconnect:
  "connect_frame s0 s \<Longrightarrow> wp (reconnect w i nets) (\<lambda>r s'. r = Val () \<and> connect_frame s0 s') s"
  unfolding reconnect_def
  by (rule wp_for_each_inv)
     (auto simp: wp_simps reconnectOne_def connectContainerToNetwork_def frame_defs2
           intro!: frame_intros split: option.splits)

lemma reconnect_wpI:
  assumes "\<And>s'. connect_frame s s' \<Longrightarrow> Q (Val ()) s'"
  shows "wp (reconnect w i nets) Q s"
  by (rule wp_mono[OF wp_reconnect[of s s]]) (use assms in \<open>auto simp: frame_defs2 extends_refl\<close>)

lemmas call_defs = createScheduleExecution_def updateScheduleExecution_def
  updateAutoUpdateLastChecked_def updateAutoUpdateLastUpdated_def getScannerSettings_def
  getAutoUpdateSettingById_def saveVulnerabilityScan_def getCombinedScanForImage_def
  sendEventNotification_def listContainers_def checkImageUpdateAvailable_def pullImage_def
  getImageIdByTag_def tagImage_def removeTempImage_def stopContainer_def startContainer_def
  removeContainer_def createContainer_def connectContainerToNetwork_def getStackComposeFile_def
  pullStackService_def updateStackService_def

lemma extends_weaken_connect: "extends is_connect a b \<Longrightarrow> extends is_recreate_call a b"
proof (rule extends_weaken)
  fix c show "is_connect c \<Longrightarrow> is_recreate_call c" by (cases c) auto
qed

lemma extends_app: "extends P (a @ x) b \<Longrightarrow> list_all P x \<Longrightarrow> extends P a b"
  by (auto simp: extends_def)

lemma wp_invoke2: "wp (invoke w c eff ans) Q s =
  ((\<forall>msg. fault w (trace s) c = Some msg \<longrightarrow> Q (Throw msg) (s\<lparr>trace := trace s @ [c]\<rparr>)) \<and>
   (fault w (trace s) c = None \<longrightarrow> Q (Val (ans s)) ((eff s)\<lparr>trace := trace s @ [c]\<rparr>)))"
  by (simp add: wp_def invoke_def split: option.splits)

lemma wp_case_option: "wp (case x of None \<Rightarrow> m | Some y \<Rightarrow> n y) Q s =
  (case x of None \<Rightarrow> wp m Q s | Some y \<Rightarrow> wp (n y) Q s)"
  by (simp split: option.splits)

lemma wp_case_option': "wp (case x of None \<Rightarrow> m | Some y \<Rightarrow> n y) Q s =
  ((x = None \<longrightarrow> wp m Q s) \<and> (\<forall>y. x = Some y \<longrightarrow> wp (n y) Q s))"
  by (simp split: option.splits)

lemma wp_if': "wp (if b then m else n) Q s = ((b \<longrightarrow> wp m Q s) \<and> (\<not> b \<longrightarrow> wp n Q s))"
  by simp

lemma wp_run_if': "wp (run_if b m) Q s = ((b \<longrightarrow> wp m Q s) \<and> (\<not> b \<longrightarrow> Q (Val ()) s))"
  by (simp add: run_if_def wp_val)

lemma wp_case_prod: "wp (case p of (a, b) \<Rightarrow> f a b) Q s = wp (f (fst p) (snd p)) Q s"
  by (simp split: prod.splits)

lemma wp_let: "wp (let x = a in f x) Q s = wp (f a) Q s"
  by simp

lemmas wp_simps2 = wp_val wp_ret wp_throw wp_log wp_bnd wp_seq wp_try wp_call wp_invoke2 wp_if' wp_run_if'
  wp_case_option' wp_case_prod wp_let wp_inspectContainer

lemma extends_connect_recreate:
  "extends is_connect (tr @ cs) tr' \<Longrightarrow> list_all is_recreate_call cs \<longrightarrow> extends is_recreate_call tr tr'"
  using extends_app[OF extends_weaken_connect] by blast

lemma recreateBody_wpI:
  assumes "\<And>r s'. (\<forall>v. r \<noteq> Val v) \<Longrightarrow> recreate_frame s s' \<Longrightarrow> Q r s'"
  shows "wp (recreateBody w name) Q s"
  apply (simp add: recreateBody_def wp_simps2 call_defs split del: if_split)
  apply (auto simp: wp_simps2 frame_defs2 call_defs
      intro!: assms additionalNetworks_wpI reconnect_wpI frame_intros
      dest!: extends_connect_recreate
      split: option.splits split del: if_split)
  done

lemma recreateContainer_wpI:
  assumes "\<And>b s'. recreate_frame s s' \<Longrightarrow> Q (Ret b) s'"
  shows "wp (recreateContainer w name) Q s"
  apply (simp add: recreateContainer_def wp_try)
  apply (rule recreateBody_wpI)
  apply (auto simp: wp_simps2 frame_defs split: res.splits intro!: assms)
  done

lemma never_failsD: "never_fails w P \<Longrightarrow> P c \<Longrightarrow> fault w tr c = None"
  by (simp add: never_fails_def)

lemma always_failsD: "always_fails w P \<Longrightarrow> P c \<Longrightarrow> fault w tr c \<noteq> None"
  by (simp add: always_fails_def)

lemma create_never_ok: "always_fails w is_create \<Longrightarrow> (fault w tr (CreateContainer opts) = None) = False"
  by (simp add: always_fails_def)

lemma recreate_not_found:
  assumes "foundContainer s name = None"
  shows "wp (recreateContainer w name) (\<lambda>r s'. r = Ret False) s"
  using assms
  by (simp add: recreateContainer_def recreateBody_def foundContainer_def wp_simps2 call_defs)

lemma recreate_create_fails:
  assumes "always_fails w is_create"
  shows "wp (recreateContainer w name) (\<lambda>r s'. r = Ret False) s"
  apply (simp add: recreateContainer_def recreateBody_def wp_simps2 call_defs
      create_never_ok[OF assms] split del: if_split)
  apply (auto simp: wp_simps2 create_never_ok[OF assms] intro!: additionalNetworks_wpI split del: if_split)
  done

lemma recreate_not_atomic_wp:
  assumes found: "foundContainer s name = Some c" and snap: "snapshot s name = Some d"
    and cfg: "Config d \<noteq> None"
    and ok: "never_fails w is_teardown" and bad: "always_fails w is_create"
  shows "wp (recreateContainer w name) (\<lambda>r s'. r = Ret False \<and>
      containers s' = filter (\<lambda>x. cid x \<noteq> cid c)
        (if Running d then map (setRunning (cid c) False) (containers s) else containers s) \<and>
      trace s' = trace s @ [ListContainers, InspectContainer (cid c)]
        @ (if Running d then [StopContainer (cid c)] else [])
        @ [RemoveContainer (cid c) True, CreateContainer (extractContainerOptions w d)]) s"
  using found snap cfg
    never_failsD[OF ok, of ListContainers] never_failsD[OF ok, of "InspectContainer _"]
    never_failsD[OF ok, of "StopContainer _"] never_failsD[OF ok, of "RemoveContainer _ _"]
  apply (simp add: recreateContainer_def recreateBody_def wp_simps2 call_defs foundContainer_def
      snapshot_def create_never_ok[OF bad] split del: if_split)
  apply (auto simp: wp_simps2 frame_defs2 create_never_ok[OF bad] intro!: additionalNetworks_wpI split del: if_split)
  done

lemma wp_reconnect_warn:
  "wp (reconnect w i nets) (\<lambda>r s'. r = Val () \<and> connect_frame s s' \<and>
      set (logs s) \<subseteq> set (logs s') \<and>
      (\<forall>n\<in>set nets. \<forall>msg. connect_refused w n msg \<longrightarrow> connectWarning n msg \<in> set (logs s'))) s"
proof (induction nets arbitrary: s)
  case Nil
  then show ?case by (simp add: reconnect_def wp_simps2 frame_defs2)
next
  case (Cons x xs)
  note IH = Cons.IH[unfolded reconnect_def]
  show ?case
    unfolding reconnect_def for_each.simps wp_seq
    apply (simp add: reconnectOne_def wp_simps2 call_defs)
    apply (intro conjI impI allI)
     apply (rule wp_mono[OF IH])
     apply (auto simp: frame_defs2 connect_refused_def connectWarning_def dest!: extends_app)[1]
    apply (rule wp_mono[OF IH])
    apply (auto simp: frame_defs2 connect_refused_def connectWarning_def dest!: extends_app)[1]
    done
qed

lemma recreate_completes:
  assumes found: "foundContainer s name = Some c" and snap: "snapshot s name = Some d"
    and cfg: "Config d \<noteq> None"
    and ok: "never_fails w (\<lambda>c. \<not> is_connect c)"
  shows "wp (recreateContainer w name) (\<lambda>r s'. r = Ret True \<and>
      (\<forall>n\<in>set (plannedNetworks (cid c) d). \<forall>msg. connect_refused w n msg \<longrightarrow>
          connectWarning n msg \<in> set (logs s'))) s"
  using found snap cfg
    never_failsD[OF ok, of ListContainers] never_failsD[OF ok, of "InspectContainer _"]
    never_failsD[OF ok, of "StopContainer _"] never_failsD[OF ok, of "RemoveContainer _ _"]
    never_failsD[OF ok, of "CreateContainer _"] never_failsD[OF ok, of "StartContainer _"]
  apply (simp add: recreateContainer_def recreateBody_def wp_simps2 call_defs foundContainer_def
      snapshot_def split del: if_split)
  apply (auto simp: wp_simps2 frame_defs2 plannedNetworks_def
      intro!: additionalNetworks_wpI wp_mono[OF wp_reconnect_warn] split del: if_split)
  done

lemma recreate_never_throws: "\<exists>b. fst (recreateContainer w name s) = Ret b"
  using recreateContainer_wpI[of s "\<lambda>r s'. \<exists>b. r = Ret b" w name]
  by (simp add: wp_fst_snd)

subsection \<open>Runs on the concrete runtime\<close>

lemma wp_both: "wp (both m n) Q s =
  wp m (\<lambda>r1 s1. wp n (\<lambda>r2 s2. Q (case r1 of Throw e \<Rightarrow> Throw e | Ret r \<Rightarrow> Ret r
     | Val a \<Rightarrow> (case r2 of Throw e \<Rightarrow> Throw e | Ret r \<Rightarrow> Ret r | Val b \<Rightarrow> Val (a, b))) s2) s1) s"
  by (simp add: wp_def both_def split: prod.splits res.splits)

lemma world0_fields:
  "fault world0 tr c = None"
  "registryImage world0 tr n = ''sha:bbb''"
  "registryAnswer world0 tr n i = \<lparr>hasUpdate = True, registryDigest = Some ''sha:bbb'',
        isLocalImage = False, checkError = None\<rparr>"
  "scannerSetting world0 tr = ''none''"
  "updateSetting world0 tr k = None"
  "scanAnswer world0 tr i = []"
  "scanProgress world0 tr i = []"
  "cachedScan world0 tr i = None"
  "composeLookup world0 tr p = \<lparr>lookupSuccess = False, composePath = None\<rparr>"
  "pullService world0 tr p q = \<lparr>stackSuccess = True, stackError = None\<rparr>"
  "updateService world0 tr p q = \<lparr>stackSuccess = True, stackError = None\<rparr>"
  "createdContainer world0 tr opts = \<lparr>cid = ''c2'', cname = optName opts,
        inspect = \<lparr>Image = ''sha:bbb'',
          Config = Some \<lparr>cfgImage = Some (optImage opts), cfgLabels = None\<rparr>,
          Running = False, NetworkMode = Some ''bridge'', Networks = None\<rparr>\<rparr>"
  "parseImageNameAndTag world0 = splitRef"
  "getTempImageTag world0 n = n @ ''-pending''"
  "isDigestBasedImage world0 n = (CHR ''@'' \<in> set n)"
  "isSystemContainer world0 n = None"
  "extractContainerOptions world0 d = \<lparr>optName = ''web-1'', optImage = ''app:latest'',
        networkAliases = None, networkIpv4Address = None\<rparr>"
  by (simp_all add: world0_def)

lemma state0_fields:
  "tags state0 = [(''app'', ''latest'') \<mapsto> ''sha:aaa'']"
  "containers state0 = [web1]"
  "execution state0 = None"
  "writes state0 = []"
  "notifications state0 = []"
  "logs state0 = []"
  "trace state0 = []"
  by (simp_all add: state0_def)

lemma web1_fields:
  "cid web1 = ''c1''" "cname web1 = ''web-1''"
  "Image (inspect web1) = ''sha:aaa''"
  "Config (inspect web1) = Some \<lparr>cfgImage = Some ''app:latest'', cfgLabels = None\<rparr>"
  "Running (inspect web1) = True"
  "NetworkMode (inspect web1) = Some ''bridge''"
  "Networks (inspect web1) = Some [(''bridge'', plainNet), (''backend'', plainNet)]"
  by (simp_all add: web1_def)

lemma worldMuteSink_fields:
  "fault worldMuteSink = (\<lambda>_ c. if is_notice c then Some ''sink down'' else None)"
  "registryImage worldMuteSink = registryImage world0"
  "registryAnswer worldMuteSink = registryAnswer world0"
  "scannerSetting worldMuteSink = scannerSetting world0"
  "updateSetting worldMuteSink = updateSetting world0"
  "scanAnswer worldMuteSink = scanAnswer world0"
  "scanProgress worldMuteSink = scanProgress world0"
  "cachedScan worldMuteSink = cachedScan world0"
  "composeLookup worldMuteSink = composeLookup world0"
  "pullService worldMuteSink = pullService world0"
  "updateService worldMuteSink = updateService world0"
  "createdContainer worldMuteSink = createdContainer world0"
  "parseImageNameAndTag worldMuteSink = parseImageNameAndTag world0"
  "getTempImageTag worldMuteSink = getTempImageTag world0"
  "isDigestBasedImage worldMuteSink = isDigestBasedImage world0"
  "isSystemContainer worldMuteSink = isSystemContainer world0"
  "extractContainerOptions worldMuteSink = extractContainerOptions world0"
  by (simp_all add: worldMuteSink_def)


lemma wp_arg_cong: "m = m' \<Longrightarrow> wp m Q s = wp m' Q s"
  by simp

lemmas stage_defs = runContainerUpdate_def runBody_def resolveTarget_def applyExclusions_def
  readSettings_def checkForUpdates_def composeFlow_def composeUpdate_def composeGate_def
  standaloneFlow_def safePull_def simplePull_def standaloneGate_def recreateAndFinish_def
  boundaryHandler_def recreateContainer_def recreateBody_def reconnect_def reconnectOne_def
  logPrimary_def logProgressNew_def logProgressCurrent_def
  writeSuccess_def writeBlocked_def notifySuccess_def notifyBlocked_def notifyFailed_def
  restoreTag_def
  scanAndCheckBlock_def saveNewScans_def saveNewScan_def saveCurrentScans_def saveCurrentScan_def
  currentScan_def decideBlock_def

lemmas stage_wp = stage_defs[THEN wp_arg_cong] call_defs[THEN wp_arg_cong]

lemmas data_defs = truthy_def strOf_def terminal_def started_def created_def
  networkSettingsOf_def primaryNetworkOf_def isPrimary_def networkInfo_def secondaryAliases_def
  splitRef_def setRunning_def untag_def plainNet_def progressTag_def
  scanContext_def isStackContainer_def labelOf_def noScan_def

lemma wp_cong: "m = m' \<Longrightarrow> s = s' \<Longrightarrow> wp m Q s = wp m' Q s'"
  by simp

lemma wp_inspect_case: "wp (inspectContainer w i) Q s =
  (case find (\<lambda>c. cid c = i) (containers s) of
     None \<Rightarrow> Q (Throw ''No such container'') (s\<lparr>trace := trace s @ [InspectContainer i]\<rparr>)
   | Some c \<Rightarrow> wp (invoke w (InspectContainer i) (\<lambda>s. s) (\<lambda>_. inspect c)) Q s)"
  by (simp add: wp_def inspectContainer_def split: option.splits)

lemmas wp_eval = wp_val wp_ret wp_throw wp_log wp_bnd wp_seq wp_try wp_call wp_invoke wp_if
  wp_run_if wp_case_option wp_case_prod wp_let wp_inspect_case wp_both wp_scanImage

lemmas eval_simps = stage_wp data_defs wp_eval
  world0_fields state0_fields web1_fields

lemma mute_sink_run:
  "wp (runContainerUpdate worldMuteSink 1 ''web-1'' ''cron'')
     (\<lambda>r s'. r = Throw ''sink down'' \<and> map status (writes s') = [None, Some success, Some failed]
        \<and> notifications s' = []) state0"
  by (simp add: eval_simps worldMuteSink_fields cong: wp_cong split del: if_split)


lemma worldCurrentNoSkip_fields:
  "fault worldCurrentNoSkip = (\<lambda>_ c. if is_skip_write c then Some ''ledger busy'' else None)"
  "registryImage worldCurrentNoSkip = registryImage world0"
  "registryAnswer worldCurrentNoSkip = (\<lambda>_ _ _. \<lparr>hasUpdate = False,
     registryDigest = Some ''sha:aaa'', isLocalImage = False, checkError = None\<rparr>)"
  "scannerSetting worldCurrentNoSkip = scannerSetting world0"
  "updateSetting worldCurrentNoSkip = updateSetting world0"
  "scanAnswer worldCurrentNoSkip = scanAnswer world0"
  "scanProgress worldCurrentNoSkip = scanProgress world0"
  "cachedScan worldCurrentNoSkip = cachedScan world0"
  "composeLookup worldCurrentNoSkip = composeLookup world0"
  "pullService worldCurrentNoSkip = pullService world0"
  "updateService worldCurrentNoSkip = updateService world0"
  "createdContainer worldCurrentNoSkip = createdContainer world0"
  "parseImageNameAndTag worldCurrentNoSkip = parseImageNameAndTag world0"
  "getTempImageTag worldCurrentNoSkip = getTempImageTag world0"
  "isDigestBasedImage worldCurrentNoSkip = isDigestBasedImage world0"
  "isSystemContainer worldCurrentNoSkip = isSystemContainer world0"
  "extractContainerOptions worldCurrentNoSkip = extractContainerOptions world0"
  by (simp_all add: worldCurrentNoSkip_def worldCurrent_def)

lemma worldNoSkip_fields:
  "fault worldNoSkip = (\<lambda>_ c. if is_skip_write c then Some ''ledger busy'' else None)"
  "registryImage worldNoSkip = registryImage world0"
  "registryAnswer worldNoSkip = registryAnswer world0"
  "scannerSetting worldNoSkip = scannerSetting world0"
  "updateSetting worldNoSkip = updateSetting world0"
  "scanAnswer worldNoSkip = scanAnswer world0"
  "scanProgress worldNoSkip = scanProgress world0"
  "cachedScan worldNoSkip = cachedScan world0"
  "composeLookup worldNoSkip = composeLookup world0"
  "pullService worldNoSkip = pullService world0"
  "updateService worldNoSkip = updateService world0"
  "createdContainer worldNoSkip = createdContainer world0"
  "parseImageNameAndTag worldNoSkip = parseImageNameAndTag world0"
  "getTempImageTag worldNoSkip = getTempImageTag world0"
  "isDigestBasedImage worldNoSkip = isDigestBasedImage world0"
  "isSystemContainer worldNoSkip = isSystemContainer world0"
  "extractContainerOptions worldNoSkip = extractContainerOptions world0"
  by (simp_all add: worldNoSkip_def)

lemma statePinned_fields:
  "tags statePinned = [(''app'', ''latest'') \<mapsto> ''sha:aaa'']"
  "containers statePinned = [pinned1]"
  "execution statePinned = None"
  "writes statePinned = []"
  "notifications statePinned = []"
  "logs statePinned = []"
  "trace statePinned = []"
  by (simp_all add: statePinned_def state0_def)

lemma pinned1_fields:
  "cid pinned1 = ''c1''" "cname pinned1 = ''web-1''"
  "Image (inspect pinned1) = ''sha:aaa''"
  "Config (inspect pinned1) = Some \<lparr>cfgImage = Some ''app@sha256:aaa'', cfgLabels = None\<rparr>"
  by (simp_all add: pinned1_def)

lemma refused_skip_run:
  "wp (runContainerUpdate worldCurrentNoSkip 1 ''web-1'' ''cron'')
     (\<lambda>r s'. r = Ret Failed \<and> map status (writes s') = [None, Some failed]
        \<and> list_all (\<lambda>c. \<not> is_pull_tag_create c) (trace s')) state0"
  by (simp add: eval_simps worldCurrentNoSkip_fields cong: wp_cong split del: if_split)

lemma refused_pinned_run:
  "wp (runContainerUpdate worldNoSkip 1 ''web-1'' ''cron'')
     (\<lambda>r s'. r = Ret Failed \<and> map status (writes s') = [None, Some failed]
        \<and> list_all (\<lambda>c. \<not> is_registry_query c) (trace s')) statePinned"
  by (simp add: eval_simps worldNoSkip_fields statePinned_fields pinned1_fields cong: wp_cong split del: if_split)




lemmas scan_data = combineScanSummaries_def addSeverity_def totalFindings_def scanOne_def


lemma worldScanning_fields:
  "fault (worldScanning f) = (\<lambda>_ c. if is_cleanup c then f else None)"
  "registryImage (worldScanning f) = registryImage world0"
  "registryAnswer (worldScanning f) = registryAnswer world0"
  "scannerSetting (worldScanning f) = (\<lambda>_. ''grype'')"
  "updateSetting (worldScanning f) = updateSetting world0"
  "scanAnswer (worldScanning f) = scanAnswer world0"
  "scanProgress (worldScanning f) = scanProgress world0"
  "cachedScan (worldScanning f) = cachedScan world0"
  "composeLookup (worldScanning f) = composeLookup world0"
  "pullService (worldScanning f) = pullService world0"
  "updateService (worldScanning f) = updateService world0"
  "createdContainer (worldScanning f) = createdContainer world0"
  "parseImageNameAndTag (worldScanning f) = parseImageNameAndTag world0"
  "getTempImageTag (worldScanning f) = getTempImageTag world0"
  "isDigestBasedImage (worldScanning f) = isDigestBasedImage world0"
  "isSystemContainer (worldScanning f) = isSystemContainer world0"
  "extractContainerOptions (worldScanning f) = extractContainerOptions world0"
  by (simp_all add: worldScanning_def)


lemma scanning_resolve:
  assumes "containers s = [web1]"
  shows "wp (resolveTarget (worldScanning f) 1 ''web-1'')
     (\<lambda>r s'. r = Val target0 \<and> containers s' = [web1] \<and> writes s' = writes s \<and>
        notifications s' = notifications s) s"
  using assms
  by (simp add: eval_simps worldScanning_fields target0_def cong: wp_cong split del: if_split)

lemma scanning_check:
  assumes "containers s = [web1]"
  shows "wp (checkForUpdates (worldScanning f) target0)
     (\<lambda>r s'. r = Val (target0\<lparr>newDigest := Some ''sha:bbb''\<rparr>) \<and> containers s' = [web1] \<and>
        writes s' = writes s \<and> notifications s' = notifications s) s"
  using assms
  by (simp add: eval_simps worldScanning_fields target0_def cong: wp_cong split del: if_split)

lemma scanning_compose:
  assumes "containers s = [web1]"
  shows "wp (composeFlow (worldScanning f) (target0\<lparr>newDigest := Some ''sha:bbb''\<rparr>))
     (\<lambda>r s'. r = Val () \<and> containers s' = [web1] \<and> writes s' = writes s \<and>
        notifications s' = notifications s) s"
  using assms
  by (simp add: eval_simps worldScanning_fields target0_def cong: wp_cong split del: if_split)

lemma scanning_pull:
  assumes "containers s = [web1]"
  shows "wp (standaloneFlow (worldScanning f) (target0\<lparr>newDigest := Some ''sha:bbb''\<rparr>))
     (\<lambda>r s'. r = Val passed0 \<and> containers s' = [web1] \<and> writes s' = writes s \<and>
        notifications s' = notifications s \<and>
        tags s' (''app'', ''latest'') = Some ''sha:bbb'' \<and>
        tags s' (''app'', ''latest-pending'') = map_option (\<lambda>_. ''sha:bbb'') f) s"
  using assms
  by (cases f) (simp_all add: eval_simps worldScanning_fields target0_def passed0_def scan_data
      cong: wp_cong split del: if_split)

lemma scanning_recreate:
  assumes "containers s = [web1]"
  shows "wp (recreateAndFinish (worldScanning f) (target0\<lparr>newDigest := Some ''sha:bbb''\<rparr>) passed0)
     (\<lambda>r s'. r = Ret Updated \<and> map status (writes s') = map status (writes s) @ [Some success] \<and>
        tags s' = tags s) s"
  using assms
  by (simp add: eval_simps worldScanning_fields target0_def passed0_def cong: wp_cong split del: if_split)

lemma scanning_run:
  "wp (runContainerUpdate (worldScanning f) 1 ''web-1'' ''cron'')
     (\<lambda>r s'. r = Ret Updated \<and> map status (writes s') = [None, Some success] \<and>
        tags s' (''app'', ''latest'') = Some ''sha:bbb'' \<and>
        tags s' (''app'', ''latest-pending'') = map_option (\<lambda>_. ''sha:bbb'') f) state0"
  apply (simp add: runContainerUpdate_def runBody_def wp_eval call_defs worldScanning_fields
      state0_fields cong: wp_cong split del: if_split)
  apply (rule wp_mono[OF scanning_resolve])
   apply (simp add: state0_fields)
  apply (clarsimp simp: wp_eval split del: if_split)
  apply (rule wp_mono[OF scanning_check], assumption)
  apply (clarsimp simp: wp_eval split del: if_split)
  apply (rule wp_mono[OF scanning_compose], assumption)
  apply (clarsimp simp: wp_eval split del: if_split)
  apply (rule wp_mono[OF scanning_pull], assumption)
  apply (clarsimp simp: wp_eval split del: if_split)
  apply (rule wp_mono[OF scanning_recreate], assumption)
  apply (clarsimp simp: state0_fields)
  done


subsection \<open>Container recreation\<close>

text \<open>
  C8. For every container name, \<^verbatim>\<open>recreateContainer\<close> never throws past its boundary: it
  returns a boolean. It returns false when the container is not found and when creating
  the container fails. It returns true on completion, that is when the container is found
  and no call but the network reconnections throws: a reconnection that fails is logged
  as a warning and the result is still true.
\<close>

theorem recreate_result:
  "(\<exists>b. fst (recreateContainer w name s) = Ret b) \<and>
   (foundContainer s name = None \<longrightarrow> fst (recreateContainer w name s) = Ret False) \<and>
   (always_fails w is_create \<longrightarrow> fst (recreateContainer w name s) = Ret False) \<and>
   (foundContainer s name = Some c \<and> snapshot s name = Some d \<and> Config d \<noteq> None \<and>
      never_fails w (\<lambda>c. \<not> is_connect c) \<longrightarrow>
        fst (recreateContainer w name s) = Ret True \<and>
        (\<forall>n\<in>set (plannedNetworks (cid c) d). \<forall>msg. connect_refused w n msg \<longrightarrow>
           connectWarning n msg \<in> set (logs (snd (recreateContainer w name s)))))"
  using recreate_never_throws[of w name s] recreate_not_found[of s name w]
    recreate_create_fails[of w name s] recreate_completes[of s name c d w]
  by (simp add: wp_fst_snd)

lemma found0: "foundContainer state0 ''web-1'' = Some web1"
  by (simp add: foundContainer_def state0_def web1_def)

lemma snap0: "snapshot state0 ''web-1'' = Some (inspect web1)"
  by (simp add: snapshot_def foundContainer_def state0_def web1_def)

lemma planned0: "plannedNetworks (cid web1) (inspect web1) = [backendNet]"
  by (simp add: plannedNetworks_def web1_def networkSettingsOf_def primaryNetworkOf_def
      isPrimary_def truthy_def strOf_def networkInfo_def backendNet_def plainNet_def
      secondaryAliases_def labelOf_def)

theorem recreate_result_witness:
  "fst (recreateContainer world0 ''ghost'' state0) = Ret False \<and>
   fst (recreateContainer worldNoCreate ''web-1'' state0) = Ret False \<and>
   fst (recreateContainer worldNoConnect ''web-1'' state0) = Ret True \<and>
   connectWarning backendNet ''no route''
     \<in> set (logs (snd (recreateContainer worldNoConnect ''web-1'' state0)))"
proof -
  have a: "foundContainer state0 ''ghost'' = None"
    by (simp add: foundContainer_def state0_def web1_def)
  have b: "always_fails worldNoCreate is_create"
    by (simp add: always_fails_def worldNoCreate_def)
  have c: "never_fails worldNoConnect (\<lambda>c. \<not> is_connect c)"
    by (simp add: never_fails_def worldNoConnect_def)
  have d: "connect_refused worldNoConnect backendNet ''no route''"
    by (simp add: connect_refused_def worldNoConnect_def)
  have e: "Config (inspect web1) \<noteq> None" by (simp add: web1_def)
  show ?thesis
    using recreate_result[of world0 "''ghost''" state0] a
      recreate_result[of worldNoCreate "''web-1''" state0] b
      recreate_result[of worldNoConnect "''web-1''" state0 web1 "inspect web1"] c d e found0 snap0 planned0
    by simp
qed

text \<open>
  C9. Recreation is not atomic. When the container exists and listing, inspecting,
  stopping and removing succeed, the old container is stopped (if it was running) and
  force-removed before the new one is created; when creating then fails, the function
  returns false, the original container is gone, and the create call is the last call
  issued: nothing is restored.
\<close>

theorem recreate_not_atomic:
  assumes "foundContainer s name = Some c" and "snapshot s name = Some d" and "Config d \<noteq> None"
    and "never_fails w is_teardown" and "always_fails w is_create"
  shows "fst (recreateContainer w name s) = Ret False \<and>
     (\<forall>x\<in>set (containers (snd (recreateContainer w name s))). cid x \<noteq> cid c) \<and>
     containers (snd (recreateContainer w name s)) = filter (\<lambda>x. cid x \<noteq> cid c)
        (if Running d then map (setRunning (cid c) False) (containers s) else containers s) \<and>
     trace (snd (recreateContainer w name s)) = trace s @ [ListContainers, InspectContainer (cid c)]
        @ (if Running d then [StopContainer (cid c)] else [])
        @ [RemoveContainer (cid c) True, CreateContainer (extractContainerOptions w d)]"
  using recreate_not_atomic_wp[OF assms] by (auto simp: wp_fst_snd)

theorem recreate_not_atomic_witness:
  "fst (recreateContainer worldNoCreate ''web-1'' state0) = Ret False \<and>
   containers (snd (recreateContainer worldNoCreate ''web-1'' state0)) = [] \<and>
   trace (snd (recreateContainer worldNoCreate ''web-1'' state0)) =
     [ListContainers, InspectContainer ''c1'', StopContainer ''c1'', RemoveContainer ''c1'' True,
      CreateContainer \<lparr>optName = ''web-1'', optImage = ''app:latest'',
        networkAliases = None, networkIpv4Address = None\<rparr>]"
proof -
  have b: "always_fails worldNoCreate is_create"
    by (simp add: always_fails_def worldNoCreate_def)
  have c: "never_fails worldNoCreate is_teardown"
    unfolding never_fails_def worldNoCreate_def
  proof (intro allI impI)
    fix tr c assume "is_teardown c"
    then show "fault (world0\<lparr>fault := \<lambda>_ c. if is_create c then Some ''no space'' else None\<rparr>) tr c = None"
      by (cases c) simp_all
  qed
  have e: "Config (inspect web1) \<noteq> None" by (simp add: web1_def)
  show ?thesis
    using recreate_not_atomic[OF found0 snap0 e c b]
    by (simp add: state0_def web1_def setRunning_def worldNoCreate_def world0_def)
qed

subsection \<open>Skips\<close>

lemma resolveTarget_calls:
  assumes P: "\<And>c. is_bookkeeping c \<Longrightarrow> P c" and tr: "extends P tr0 (trace s)"
    and Q: "\<And>r s'. extends P tr0 (trace s') \<Longrightarrow> containers s' = containers s \<Longrightarrow> Q r s'"
  shows "wp (resolveTarget w sid name) Q s"
  using tr
  apply (simp add: resolveTarget_def applyExclusions_def readSettings_def wp_simps2 wp_both call_defs
      split del: if_split)
  apply (auto simp: wp_simps2 intro!: Q extends_more P split del: if_split)
  done

lemma resolveTarget_pinned:
  assumes P: "\<And>c. is_bookkeeping c \<Longrightarrow> P c" and tr: "extends P tr0 (trace s)"
    and snap: "snapshot s name = Some d" "Config d = Some cfg" "cfgImage cfg = Some n"
      "isDigestBasedImage w n"
    and Q: "\<And>r s'. extends P tr0 (trace s') \<Longrightarrow> (\<forall>t. r \<noteq> Val t) \<Longrightarrow> Q r s'"
  shows "wp (resolveTarget w sid name) Q s"
  using tr snap
  apply (simp add: resolveTarget_def applyExclusions_def wp_simps2 call_defs
      snapshot_def foundContainer_def split del: if_split)
  apply (auto simp: wp_simps2 strOf_def intro!: Q extends_more P split: option.splits split del: if_split)
  done

lemma checkForUpdates_quiet:
  assumes P: "\<And>c. is_lookup c \<Longrightarrow> P c" and tr: "extends P tr0 (trace s)"
    and quiet: "registry_quiet w"
    and Q: "\<And>r s'. extends P tr0 (trace s') \<Longrightarrow> (\<forall>t. r \<noteq> Val t) \<Longrightarrow> Q r s'"
  shows "wp (checkForUpdates w t) Q s"
  using tr quiet[unfolded registry_quiet_def]
  apply (simp add: checkForUpdates_def wp_simps2 call_defs split del: if_split)
  apply (auto simp: wp_simps2 is_lookup_def intro!: Q extends_more P split del: if_split)
  done

lemma boundaryHandler_calls:
  assumes P: "\<And>c. is_bookkeeping c \<Longrightarrow> P c" and tr: "extends P tr0 (trace s)"
    and Q: "\<And>r s'. extends P tr0 (trace s') \<Longrightarrow> Q r s'"
  shows "wp (boundaryHandler w name msg) Q s"
  using tr
  apply (simp add: boundaryHandler_def notifyFailed_def wp_simps2 call_defs split del: if_split)
  apply (auto simp: wp_simps2 intro!: Q extends_more P split del: if_split)
  done

lemma bookkeeping_no_registry: "is_bookkeeping c \<Longrightarrow> \<not> is_registry_query c"
  by (cases c) simp_all

lemma lookup_no_mutation: "is_lookup c \<Longrightarrow> \<not> is_pull_tag_create c"
  by (cases c) (simp_all add: is_lookup_def)

lemma bookkeeping_lookup: "is_bookkeeping c \<Longrightarrow> is_lookup c"
  by (simp add: is_lookup_def)

lemma snapshot_same: "containers s1 = containers s \<Longrightarrow> snapshot s1 name = snapshot s name"
  by (simp add: snapshot_def foundContainer_def split: option.splits)

lemma pinned_never_queries:
  assumes snap: "snapshot s name = Some d" "Config d = Some cfg" "cfgImage cfg = Some n"
      "isDigestBasedImage w n"
  shows "wp (runContainerUpdate w sid name trig)
     (\<lambda>r s'. extends (\<lambda>c. \<not> is_registry_query c) (trace s) (trace s')) s"
proof -
  let ?P = "\<lambda>c. \<not> is_registry_query c"
  have handler: "wp (boundaryHandler w name e) (\<lambda>r s''. extends ?P (trace s) (trace s'')) s'"
    if "extends ?P (trace s) (trace s')" for e s'
    by (rule boundaryHandler_calls[where P="?P" and ?tr0.0="trace s"])
       (use that in \<open>auto simp: bookkeeping_no_registry\<close>)
  have body: "wp (resolveTarget w sid name)
      (\<lambda>r s'. extends ?P (trace s) (trace s') \<and> (\<forall>t. r \<noteq> Val t)) s1"
    if "extends ?P (trace s) (trace s1)" "containers s1 = containers s" for s1
    by (rule resolveTarget_pinned[where P="?P" and ?tr0.0="trace s" and d=d and cfg=cfg and n=n])
       (use that snap snapshot_same[of s1 s name] in \<open>auto simp: bookkeeping_no_registry\<close>)
  show ?thesis
    apply (simp add: runContainerUpdate_def runBody_def wp_simps2 call_defs split del: if_split)
    apply (intro conjI impI allI)
    apply (rule wp_mono[OF body])
      apply simp
     apply simp
    apply (auto split: res.splits intro!: handler)
    done
qed

lemma quiet_never_mutates:
  assumes quiet: "registry_quiet w"
  shows "wp (runContainerUpdate w sid name trig)
     (\<lambda>r s'. extends (\<lambda>c. \<not> is_pull_tag_create c) (trace s) (trace s')) s"
proof -
  let ?P = "\<lambda>c. \<not> is_pull_tag_create c"
  have handler: "wp (boundaryHandler w name e) (\<lambda>r s''. extends ?P (trace s) (trace s'')) s'"
    if "extends ?P (trace s) (trace s')" for e s'
    by (rule boundaryHandler_calls[where P="?P" and ?tr0.0="trace s"])
       (use that in \<open>auto simp: lookup_no_mutation bookkeeping_lookup\<close>)
  have resolve: "wp (resolveTarget w sid name) (\<lambda>r s'. extends ?P (trace s) (trace s')) s1"
    if "extends ?P (trace s) (trace s1)" for s1
    by (rule resolveTarget_calls[where P="?P" and ?tr0.0="trace s"])
       (use that in \<open>auto simp: lookup_no_mutation bookkeeping_lookup\<close>)
  have check: "wp (checkForUpdates w t)
      (\<lambda>r s'. extends ?P (trace s) (trace s') \<and> (\<forall>t. r \<noteq> Val t)) s1"
    if "extends ?P (trace s) (trace s1)" for s1 t
    by (rule checkForUpdates_quiet[where P="?P" and ?tr0.0="trace s", OF _ _ quiet])
       (use that in \<open>auto simp: lookup_no_mutation\<close>)
  show ?thesis
    apply (simp add: runContainerUpdate_def runBody_def wp_simps2 call_defs split del: if_split)
    apply (intro conjI impI allI)
    apply (rule wp_mono[OF resolve])
     apply simp
    apply (auto split: res.splits simp: wp_bnd intro!: handler wp_mono[OF check])
    done
qed

lemma no_update_skips:
  assumes quiet: "registry_quiet w" and nf: "never_fails w is_lookup"
    and snap: "snapshot s name = Some d" "Config d = Some cfg" "cfgImage cfg = Some n" "n \<noteq> []"
    and plain: "\<not> truthy (isSystemContainer w n)" "\<not> isDigestBasedImage w n"
  shows "wp (runContainerUpdate w sid name trig)
     (\<lambda>r s'. r = Ret UpToDate \<and>
        writes s' = writes s @ [started, terminal skipped None (Some (ReasonOnly ''Already up-to-date''))] \<and>
        execution s' = Some (created sid name trig) \<and> notifications s' = notifications s) s"
  using snap plain quiet[unfolded registry_quiet_def]
  apply (simp add: runContainerUpdate_def runBody_def resolveTarget_def applyExclusions_def
      readSettings_def checkForUpdates_def wp_simps2 wp_both call_defs never_failsD[OF nf] is_lookup_def
      snapshot_def foundContainer_def split del: if_split)
  apply (auto simp: wp_simps2 wp_both never_failsD[OF nf] is_lookup_def strOf_def truthy_def started_def created_def
      split: option.splits split del: if_split)
  done

lemma pinned_skips:
  assumes nf: "never_fails w is_bookkeeping"
    and snap: "snapshot s name = Some d" "Config d = Some cfg" "cfgImage cfg = Some n" "n \<noteq> []"
      "isDigestBasedImage w n"
  shows "wp (runContainerUpdate w sid name trig)
     (\<lambda>r s'. (r = Ret SelfUpdate \<or> r = Ret DigestPinned) \<and>
        (\<exists>u. writes s' = writes s @ [started, u] \<and> status u = Some skipped) \<and>
        execution s' = Some (created sid name trig) \<and> notifications s' = notifications s) s"
  using snap
  apply (simp add: runContainerUpdate_def runBody_def resolveTarget_def applyExclusions_def
      wp_simps2 call_defs never_failsD[OF nf]
      snapshot_def foundContainer_def split del: if_split)
  apply (auto simp: wp_simps2 never_failsD[OF nf] strOf_def truthy_def started_def created_def terminal_def
      split: option.splits split del: if_split)
  done

text \<open>
  C6, as the code has it. For every target for which the registry comparison reports no
  update (and no error, and not a local image), no pull, tag or create call is issued
  during the run, whatever the collaborators do; and when the calls on this path (the
  ledger, the settings, listing, inspecting, the registry comparison) do not throw, for a
  container that is found, has an image name, is no system container and is not pinned
  by digest, the run ends with the one terminal write skipped, reason already up to date.
\<close>

theorem no_update_is_skipped:
  assumes "registry_quiet w"
  shows "(\<exists>cs. trace (snd (runContainerUpdate w sid name trig s)) = trace s @ cs \<and>
            list_all (\<lambda>c. \<not> is_pull_tag_create c) cs) \<and>
         (never_fails w is_lookup \<and> snapshot s name = Some d \<and> Config d = Some cfg \<and>
          cfgImage cfg = Some n \<and> n \<noteq> [] \<and> \<not> truthy (isSystemContainer w n) \<and>
          \<not> isDigestBasedImage w n \<longrightarrow>
            fst (runContainerUpdate w sid name trig s) = Ret UpToDate \<and>
            writes (snd (runContainerUpdate w sid name trig s)) = writes s @
              [started, terminal skipped None (Some (ReasonOnly ''Already up-to-date''))])"
  using quiet_never_mutates[OF assms, of sid name trig s]
    no_update_skips[OF assms, of s name d cfg n sid trig]
  by (auto simp: wp_fst_snd extends_def)

theorem no_update_is_skipped_witness:
  "fst (runContainerUpdate worldCurrent 1 ''web-1'' ''cron'' state0) = Ret UpToDate \<and>
   writes (snd (runContainerUpdate worldCurrent 1 ''web-1'' ''cron'' state0)) =
     [started, terminal skipped None (Some (ReasonOnly ''Already up-to-date''))] \<and>
   (\<exists>cs. trace (snd (runContainerUpdate worldCurrent 1 ''web-1'' ''cron'' state0)) = cs \<and>
      list_all (\<lambda>c. \<not> is_pull_tag_create c) cs)"
proof -
  have q: "registry_quiet worldCurrent"
    by (simp add: registry_quiet_def worldCurrent_def truthy_def)
  have nf: "never_fails worldCurrent is_lookup"
    by (simp add: never_fails_def worldCurrent_def world0_def)
  have sn: "snapshot state0 ''web-1'' = Some (inspect web1)"
    by (simp add: snapshot_def foundContainer_def state0_def web1_def)
  have cf: "Config (inspect web1) = Some \<lparr>cfgImage = Some ''app:latest'', cfgLabels = None\<rparr>"
    by (simp add: web1_def)
  have pl: "\<not> truthy (isSystemContainer worldCurrent ''app:latest'')"
    "\<not> isDigestBasedImage worldCurrent ''app:latest''"
    by (simp_all add: worldCurrent_def world0_def truthy_def)
  have w0: "writes state0 = []" "trace state0 = []" by (simp_all add: state0_def)
  show ?thesis
    using no_update_is_skipped[OF q, of 1 "''web-1''" "''cron''" state0 "inspect web1"
        "\<lparr>cfgImage = Some ''app:latest'', cfgLabels = None\<rparr>" "''app:latest''"]
      nf sn cf pl w0
    by simp
qed

text \<open>
  The claim as stated fails: the registry reports no update and the ledger refuses the
  write of line 448; the handler at the boundary catches the error and the run ends with
  the terminal status failed.
\<close>

theorem up_to_date_ends_failed:
  "registry_quiet worldCurrentNoSkip \<and>
   fst (runContainerUpdate worldCurrentNoSkip 1 ''web-1'' ''cron'' state0) = Ret Failed \<and>
   map status (writes (snd (runContainerUpdate worldCurrentNoSkip 1 ''web-1'' ''cron'' state0)))
     = [None, Some failed]"
  using refused_skip_run by (simp add: wp_fst_snd registry_quiet_def worldCurrentNoSkip_fields truthy_def)

text \<open>
  C7, as the code has it. For every target whose image reference is pinned by content
  digest, the registry comparison is never invoked during the run, whatever the
  collaborators do; and when the bookkeeping calls on this path do not throw, the run
  ends with the one terminal write skipped (as a system container, which is checked
  first, or as a digest-pinned image).
\<close>

theorem pinned_is_skipped:
  assumes "snapshot s name = Some d" and "Config d = Some cfg" and "cfgImage cfg = Some n"
    and "n \<noteq> []" and "isDigestBasedImage w n"
  shows "(\<exists>cs. trace (snd (runContainerUpdate w sid name trig s)) = trace s @ cs \<and>
            list_all (\<lambda>c. \<not> is_registry_query c) cs) \<and>
         (never_fails w is_bookkeeping \<longrightarrow>
            (fst (runContainerUpdate w sid name trig s) = Ret SelfUpdate \<or>
             fst (runContainerUpdate w sid name trig s) = Ret DigestPinned) \<and>
            (\<exists>u. writes (snd (runContainerUpdate w sid name trig s)) = writes s @ [started, u] \<and>
               status u = Some skipped))"
  using pinned_never_queries[OF assms(1,2,3,5), of sid trig]
    pinned_skips[OF _ assms, of sid trig]
  by (auto simp: wp_fst_snd extends_def)

theorem pinned_is_skipped_witness:
  "fst (runContainerUpdate world0 1 ''web-1'' ''cron'' statePinned) = Ret DigestPinned \<and>
   (\<exists>u. writes (snd (runContainerUpdate world0 1 ''web-1'' ''cron'' statePinned)) = [started, u] \<and>
      status u = Some skipped) \<and>
   (\<exists>cs. trace (snd (runContainerUpdate world0 1 ''web-1'' ''cron'' statePinned)) = cs \<and>
      list_all (\<lambda>c. \<not> is_registry_query c) cs)"
proof -
  have nf: "never_fails world0 is_bookkeeping"
    by (simp add: never_fails_def world0_def)
  have sn: "snapshot statePinned ''web-1'' = Some (inspect pinned1)"
    by (simp add: snapshot_def foundContainer_def statePinned_def state0_def pinned1_def)
  have cf: "Config (inspect pinned1) = Some \<lparr>cfgImage = Some ''app@sha256:aaa'', cfgLabels = None\<rparr>"
    by (simp add: pinned1_def)
  have pl: "isDigestBasedImage world0 ''app@sha256:aaa''"
    by (simp add: world0_def)
  have w0: "writes statePinned = []" "trace statePinned = []"
    by (simp_all add: statePinned_def state0_def)
  have "wp (runContainerUpdate world0 1 ''web-1'' ''cron'') (\<lambda>r s. r \<noteq> Ret SelfUpdate) statePinned"
    by (simp add: runContainerUpdate_def runBody_def resolveTarget_def applyExclusions_def
        wp_simps2 call_defs world0_def statePinned_def state0_def pinned1_def truthy_def strOf_def)
  then have sys: "fst (runContainerUpdate world0 1 ''web-1'' ''cron'' statePinned) \<noteq> Ret SelfUpdate"
    by (simp add: wp_fst_snd)
  show ?thesis
    using pinned_is_skipped[OF sn cf _ _ pl, where sid=1 and trig="''cron''"] nf w0 sys
    by simp
qed

text \<open>
  The claim as stated fails: the image is pinned by digest and the ledger refuses the
  write of line 380; the handler at the boundary catches the error and the run ends with
  the terminal status failed.
\<close>

theorem pinned_ends_failed:
  "isDigestBasedImage worldNoSkip ''app@sha256:aaa'' \<and>
   snapshot statePinned ''web-1'' = Some (inspect pinned1) \<and>
   fst (runContainerUpdate worldNoSkip 1 ''web-1'' ''cron'' statePinned) = Ret Failed \<and>
   map status (writes (snd (runContainerUpdate worldNoSkip 1 ''web-1'' ''cron'' statePinned)))
     = [None, Some failed]"
  using refused_pinned_run by (simp add: wp_fst_snd worldNoSkip_fields world0_fields
    snapshot_def foundContainer_def statePinned_fields pinned1_fields)


subsection \<open>The execution record\<close>

lemmas ledger_defs = open_run_def closed_run_def terminal_def frame_defs2

lemma ledger_simps:
  assumes "never_fails w is_ledger_or_notice"
  shows "fault w tr (CreateScheduleExecution c) = None"
    "fault w tr (UpdateScheduleExecution u) = None"
    "fault w tr (SendEventNotification n) = None"
  using assms by (simp_all add: never_fails_def)

lemma resolveTarget_ledger:
  assumes dep: "never_fails w is_ledger_or_notice" and op: "open_run s0 s"
    and Q: "\<And>r s'. ledger_post s0 r s' \<Longrightarrow> Q r s'"
  shows "wp (resolveTarget w sid name) Q s"
  using op
  apply (simp add: resolveTarget_def applyExclusions_def readSettings_def wp_simps2 wp_both call_defs
      ledger_simps[OF dep] split del: if_split)
  apply (auto simp: wp_simps2 ledger_defs ledger_simps[OF dep] intro!: Q split del: if_split)
  done

lemma checkForUpdates_ledger:
  assumes dep: "never_fails w is_ledger_or_notice" and op: "open_run s0 s"
    and Q: "\<And>r s'. ledger_post s0 r s' \<Longrightarrow> Q r s'"
  shows "wp (checkForUpdates w t) Q s"
  using op
  apply (simp add: checkForUpdates_def wp_simps2 call_defs
      ledger_simps[OF dep] split del: if_split)
  apply (auto simp: wp_simps2 ledger_defs ledger_simps[OF dep] intro!: Q split del: if_split)
  done

lemma boundaryHandler_ledger:
  assumes dep: "never_fails w is_ledger_or_notice" and op: "open_run s0 s"
    and Q: "\<And>s'. closed_run s0 Failed s' \<Longrightarrow> Q (Ret Failed) s'"
  shows "wp (boundaryHandler w name msg) Q s"
  using op
  apply (simp add: boundaryHandler_def notifyFailed_def wp_simps2 call_defs
      ledger_simps[OF dep] split del: if_split)
  apply (auto simp: wp_simps2 ledger_defs ledger_simps[OF dep] intro!: Q split del: if_split)
  done

lemma composeGate_ledger:
  assumes dep: "never_fails w is_ledger_or_notice" and op: "open_run s0 s"
    and Q: "\<And>r s'. ledger_post s0 r s' \<Longrightarrow> Q r s'"
  shows "wp (composeGate w t new) Q s"
  using op
  apply (simp add: composeGate_def wp_simps2 split del: if_split)
  apply (intro conjI impI)
   apply (rule scanAndCheckBlock_wpI[where ?s0.0=s])
    apply (simp add: frame_defs2)
   apply (auto simp: wp_simps2 ledger_defs ledger_simps[OF dep] call_defs restoreTag_def
      writeBlocked_def notifyBlocked_def
      intro!: Q split: res.splits split del: if_split)
  done

lemma composeUpdate_ledger:
  assumes dep: "never_fails w is_ledger_or_notice" and op: "open_run s0 s"
    and Q: "\<And>r s'. ledger_post s0 r s' \<Longrightarrow> Q r s'"
  shows "wp (composeUpdate w t) Q s"
  using op
  apply (simp add: composeUpdate_def wp_simps2 call_defs ledger_simps[OF dep] split del: if_split)
  apply (auto simp: wp_simps2 ledger_defs ledger_simps[OF dep] call_defs writeSuccess_def
      notifySuccess_def notifyFailed_def
      intro!: Q composeGate_ledger[OF dep, where ?s0.0=s0] split: res.splits split del: if_split)
  done

lemma composeFlow_ledger:
  assumes dep: "never_fails w is_ledger_or_notice" and op: "open_run s0 s"
    and Q: "\<And>r s'. ledger_post s0 r s' \<Longrightarrow> Q r s'"
  shows "wp (composeFlow w t) Q s"
  using op
  apply (simp add: composeFlow_def wp_simps2 call_defs ledger_simps[OF dep] split del: if_split)
  apply (auto simp: wp_simps2 ledger_defs ledger_simps[OF dep] call_defs
      intro!: Q composeUpdate_ledger[OF dep, where ?s0.0=s0] split: res.splits split del: if_split)
  done

lemma standaloneGate_ledger:
  assumes dep: "never_fails w is_ledger_or_notice" and op: "open_run s0 s"
    and Q: "\<And>r s'. ledger_post s0 r s' \<Longrightarrow> Q r s'"
  shows "wp (standaloneGate w t new tmp) Q s"
  using op
  apply (simp add: standaloneGate_def wp_simps2 split del: if_split)
  apply (rule scanAndCheckBlock_wpI[where ?s0.0=s])
   apply (simp add: frame_defs2)
  apply (auto simp: wp_simps2 ledger_defs ledger_simps[OF dep] call_defs
      writeBlocked_def notifyBlocked_def
      intro!: Q split: res.splits split del: if_split)
  done

lemma safePull_ledger:
  assumes dep: "never_fails w is_ledger_or_notice" and op: "open_run s0 s"
    and Q: "\<And>r s'. ledger_post s0 r s' \<Longrightarrow> Q r s'"
  shows "wp (safePull w t) Q s"
  using op
  apply (simp add: safePull_def wp_simps2 call_defs ledger_simps[OF dep] split del: if_split)
  apply (auto simp: wp_simps2 ledger_defs ledger_simps[OF dep] call_defs
      intro!: Q standaloneGate_ledger[OF dep, where ?s0.0=s0] split: res.splits split del: if_split)
  done

lemma simplePull_ledger:
  assumes dep: "never_fails w is_ledger_or_notice" and op: "open_run s0 s"
    and Q: "\<And>r s'. ledger_post s0 r s' \<Longrightarrow> Q r s'"
  shows "wp (simplePull w t) Q s"
  using op
  apply (simp add: simplePull_def wp_simps2 call_defs ledger_simps[OF dep] split del: if_split)
  apply (auto simp: wp_simps2 ledger_defs ledger_simps[OF dep] call_defs
      intro!: Q split: res.splits split del: if_split)
  done

lemma standaloneFlow_ledger:
  assumes dep: "never_fails w is_ledger_or_notice" and op: "open_run s0 s"
    and Q: "\<And>r s'. ledger_post s0 r s' \<Longrightarrow> Q r s'"
  shows "wp (standaloneFlow w t) Q s"
  unfolding standaloneFlow_def
  by (auto intro!: safePull_ledger[OF dep op] simplePull_ledger[OF dep op] Q)

lemma recreateAndFinish_ledger:
  assumes dep: "never_fails w is_ledger_or_notice" and op: "open_run s0 s"
    and Q: "\<And>r s'. ledger_post s0 r s' \<Longrightarrow> (\<forall>v. r \<noteq> Val v) \<Longrightarrow> Q r s'"
  shows "wp (recreateAndFinish w t outcome) Q s"
  using op
  apply (simp add: recreateAndFinish_def wp_simps2 call_defs ledger_simps[OF dep] split del: if_split)
  apply (auto simp: wp_simps2 ledger_defs ledger_simps[OF dep] call_defs writeSuccess_def
      notifySuccess_def
      intro!: Q recreateContainer_wpI split: res.splits split del: if_split)
  done

lemma runBody_ledger:
  assumes dep: "never_fails w is_ledger_or_notice" and op: "open_run s0 s"
    and Q: "\<And>r s'. ledger_post s0 r s' \<Longrightarrow> (\<forall>v. r \<noteq> Val v) \<Longrightarrow> Q r s'"
  shows "wp (runBody w sid name) Q s"
  apply (simp add: runBody_def wp_bnd wp_seq)
  apply (rule resolveTarget_ledger[OF dep op])
  apply (auto split: res.splits simp: wp_bnd wp_seq intro!: Q checkForUpdates_ledger[OF dep, where ?s0.0=s0]
      composeFlow_ledger[OF dep, where ?s0.0=s0] standaloneFlow_ledger[OF dep, where ?s0.0=s0]
      recreateAndFinish_ledger[OF dep, where ?s0.0=s0])
  done

lemma run_ledger:
  assumes dep: "never_fails w is_ledger_or_notice"
  shows "wp (runContainerUpdate w sid name trig)
     (\<lambda>r s'. \<exists>e. r = Ret e \<and>
        (\<exists>u. writes s' = writes s @ [started, u] \<and> status u = Some (exit_status e)) \<and>
        map kind (notifications s') = map kind (notifications s) @ exit_notice e \<and>
        execution s' = Some (created sid name trig)) s"
  apply (simp add: runContainerUpdate_def wp_simps2 call_defs ledger_simps[OF dep] split del: if_split)
  apply (rule runBody_ledger[OF dep, where ?s0.0="s\<lparr>execution := Some (created sid name trig),
     writes := writes s @ [started]\<rparr>"])
   apply (simp add: open_run_def created_def started_def)
  apply (auto split: res.splits simp: ledger_defs created_def started_def
      intro!: boundaryHandler_ledger[OF dep, where ?s0.0="s\<lparr>execution := Some (created sid name trig),
     writes := writes s @ [started]\<rparr>"])
  done


lemma clean_refl [simp]: "clean w tr tr"
  by (simp add: clean_def failures_def)



































text \<open>
  C4, as the code has it. In every run in which the ledger's create and update calls and
  the notification sink do not throw, the record is created with status running at run
  start and receives, after the start time, exactly one more write: its terminal status,
  one of success, failed and skipped.
\<close>

theorem one_terminal_write:
  assumes "never_fails w is_ledger_or_notice"
  shows "execution (snd (runContainerUpdate w sid name trig s)) = Some (created sid name trig) \<and>
     initialStatus (created sid name trig) = running \<and>
     (\<exists>u. writes (snd (runContainerUpdate w sid name trig s)) = writes s @ [started, u] \<and>
        (status u = Some success \<or> status u = Some failed \<or> status u = Some skipped))"
proof -
  have st: "exit_status e = success \<or> exit_status e = failed \<or> exit_status e = skipped" for e
    by (cases e) simp_all
  show ?thesis
    using run_ledger[OF assms, of sid name trig s] st
    by (auto simp: wp_fst_snd created_def)
qed

theorem one_terminal_write_witness:
  "execution (snd (runContainerUpdate world0 1 ''web-1'' ''cron'' state0))
     = Some (created 1 ''web-1'' ''cron'') \<and>
   (\<exists>u. writes (snd (runContainerUpdate world0 1 ''web-1'' ''cron'' state0)) = [started, u] \<and>
      (status u = Some success \<or> status u = Some failed \<or> status u = Some skipped))"
proof -
  have dep: "never_fails world0 is_ledger_or_notice"
    by (simp add: never_fails_def world0_fields)
  show ?thesis
    using one_terminal_write[OF dep, of 1 "''web-1''" "''cron''" state0]
    by (simp add: state0_fields)
qed

text \<open>
  The claim as stated fails: with the notification sink down, the success notification
  of line 758 throws after the terminal write success, and the handler at the boundary
  writes failed: two terminal writes.
\<close>

theorem two_terminal_writes:
  "map status (writes (snd (runContainerUpdate worldMuteSink 1 ''web-1'' ''cron'' state0)))
     = [None, Some success, Some failed]"
  using mute_sink_run by (simp add: wp_fst_snd)

subsection \<open>Scan history\<close>

lemma sim_log_val: "sim (log x) (val ())" by (simp add: sim_def log_def val_def same_but_logs_def)




lemma sim_if: "sim m m' \<Longrightarrow> sim n n' \<Longrightarrow> sim (if b then m else n) (if b then m' else n')"
  by simp










































subsection \<open>Image tags\<close>

lemma snapshotD:
  assumes "snapshot s name = Some d"
  obtains c c' where "find (\<lambda>c. cname c = name) (containers s) = Some c"
    and "find (\<lambda>x. cid x = cid c) (containers s) = Some c'" and "inspect c' = d"
  using assms by (auto simp: snapshot_def foundContainer_def split: option.splits)

lemma resolveTarget_target:
  assumes snap: "snapshot s name = Some d" "Config d = Some cfg" "cfgImage cfg = Some n"
    and Q: "\<And>r s'. (\<forall>t. r = Val t \<longrightarrow> imageNameFromConfig t = n \<and> currentId t = Image d \<and>
                ((\<forall>tr. scannerSetting w tr \<noteq> ''none'') \<longrightarrow> shouldScan t) \<and>
                \<not> isDigestBasedImage w n) \<Longrightarrow>
             (\<forall>e. r = Ret e \<longrightarrow> e \<in> early_exits) \<Longrightarrow> Q r s'"
  shows "wp (resolveTarget w sid name) Q s"
proof -
  from snap(1) obtain c c' where f: "find (\<lambda>c. cname c = name) (containers s) = Some c"
    "find (\<lambda>x. cid x = cid c) (containers s) = Some c'" "inspect c' = d"
    by (rule snapshotD)
  show ?thesis
    using f snap(2,3)
    apply (simp add: resolveTarget_def applyExclusions_def readSettings_def wp_simps2 wp_both call_defs
        split del: if_split)
    apply (auto simp: wp_simps2 wp_both strOf_def early_exits_def intro!: Q split del: if_split)
    done
qed

lemma checkForUpdates_target:
  assumes Q: "\<And>r s'. (\<forall>t'. r = Val t' \<longrightarrow> imageNameFromConfig t' = imageNameFromConfig t \<and>
                 currentId t' = currentId t \<and> shouldScan t' = shouldScan t) \<Longrightarrow>
             (\<forall>e. r = Ret e \<longrightarrow> e \<in> early_exits) \<Longrightarrow> Q r s'"
  shows "wp (checkForUpdates w t) Q s"
  apply (simp add: checkForUpdates_def wp_simps2 call_defs split del: if_split)
  apply (auto simp: wp_simps2 early_exits_def intro!: Q split del: if_split)
  done

lemma composeGate_exits:
  assumes Q: "\<And>r s'. (\<forall>e. r = Ret e \<longrightarrow> e \<in> compose_exits) \<Longrightarrow> Q r s'"
  shows "wp (composeGate w t new) Q s"
  apply (simp add: composeGate_def wp_simps2 split del: if_split)
  apply (intro conjI impI)
   apply (rule scanAndCheckBlock_wpI[where ?s0.0=s])
    apply (simp add: frame_defs2)
   apply (auto simp: wp_simps2 call_defs restoreTag_def compose_exits_def
      writeBlocked_def notifyBlocked_def
      intro!: Q split: res.splits split del: if_split)
  done

lemma composeUpdate_exits:
  assumes Q: "\<And>r s'. (\<forall>e. r = Ret e \<longrightarrow> e \<in> compose_exits) \<Longrightarrow> Q r s'"
  shows "wp (composeUpdate w t) Q s"
  apply (simp add: composeUpdate_def wp_simps2 call_defs split del: if_split)
  apply (auto simp: wp_simps2 call_defs writeSuccess_def compose_exits_def
      notifySuccess_def notifyFailed_def
      intro!: Q composeGate_exits split: res.splits split del: if_split)
  done

lemma composeFlow_exits:
  assumes Q: "\<And>r s'. (\<forall>e. r = Ret e \<longrightarrow> e \<in> compose_exits) \<Longrightarrow> Q r s'"
  shows "wp (composeFlow w t) Q s"
  apply (simp add: composeFlow_def wp_simps2 call_defs split del: if_split)
  apply (auto simp: wp_simps2 call_defs
      intro!: Q composeUpdate_exits split: res.splits split del: if_split)
  done

lemma recreateAndFinish_tags:
  assumes Q: "\<And>r s'. (\<forall>e. r = Ret e \<longrightarrow> e = Updated) \<Longrightarrow> (\<forall>v. r \<noteq> Val v) \<Longrightarrow>
      tags s' = tags s \<Longrightarrow> Q r s'"
  shows "wp (recreateAndFinish w t outcome) Q s"
  apply (simp add: recreateAndFinish_def wp_simps2 call_defs split del: if_split)
  apply (auto simp: wp_simps2 frame_defs2 call_defs writeSuccess_def
      notifySuccess_def
      intro!: Q recreateContainer_wpI split: res.splits split del: if_split)
  done

lemma boundaryHandler_exit:
  assumes Q: "\<And>r s'. (\<forall>e. r = Ret e \<longrightarrow> e = Failed) \<Longrightarrow> Q r s'"
  shows "wp (boundaryHandler w name msg) Q s"
  apply (simp add: boundaryHandler_def notifyFailed_def wp_simps2 call_defs split del: if_split)
  apply (auto simp: wp_simps2 intro!: Q split del: if_split)
  done

lemma standaloneGate_tags:
  assumes pre: "tags s orig = Some cur"
    and Q: "\<And>r s'. (\<forall>e. r = Ret e \<longrightarrow> e = Blocked \<or> e = ScanFailed) \<Longrightarrow>
        (r = Ret Blocked \<longrightarrow> new \<noteq> cur \<longrightarrow> tags s' orig = Some cur) \<Longrightarrow>
        (\<forall>v. r = Val v \<longrightarrow> tags s' = tags s) \<Longrightarrow> Q r s'"
  shows "wp (standaloneGate w t new tmp) Q s"
  using pre
  apply (simp add: standaloneGate_def wp_simps2 split del: if_split)
  apply (rule scanAndCheckBlock_wpI[where ?s0.0=s])
   apply (simp add: frame_defs2)
  apply (auto simp: wp_simps2 frame_defs2 call_defs untag_def
      writeBlocked_def notifyBlocked_def
      intro!: Q split: res.splits split del: if_split)
  done

lemma cleanup_ok: "never_fails w is_cleanup \<Longrightarrow> fault w tr (RemoveTempImage (ByTag x)) = None"
  by (simp add: never_fails_def)

lemma safePull_tags:
  assumes t: "imageNameFromConfig t = n" "currentId t = cur"
    and ne: "parseImageNameAndTag w (getTempImageTag w n) \<noteq> parseImageNameAndTag w n"
    and Q: "\<And>r s'. (\<forall>e. r = Ret e \<longrightarrow> e = Blocked \<or> e = ScanFailed \<or> e = PullFailed) \<Longrightarrow>
        (r = Ret Blocked \<longrightarrow> (\<forall>tr. registryImage w tr n \<noteq> cur) \<longrightarrow>
           tags s' (parseImageNameAndTag w n) = Some cur) \<Longrightarrow>
        (\<forall>v. r = Val v \<longrightarrow> (\<forall>tr. registryImage w tr n = new) \<longrightarrow>
           tags s' (parseImageNameAndTag w n) = Some new \<and>
           (never_fails w is_cleanup \<longrightarrow>
              tags s' (parseImageNameAndTag w (getTempImageTag w n)) = None)) \<Longrightarrow> Q r s'"
  shows "wp (safePull w t) Q s"
  using t ne
  apply (simp add: safePull_def wp_simps2 call_defs split del: if_split)
  apply (auto simp: wp_simps2 call_defs strOf_def untag_def cleanup_ok
      intro!: Q standaloneGate_tags[where cur=cur and orig="parseImageNameAndTag w n"]
      split: res.splits split del: if_split)
  done

lemma simplePull_tags:
  assumes t: "imageNameFromConfig t = n"
    and Q: "\<And>r s'. (\<forall>e. r = Ret e \<longrightarrow> e = PullFailed) \<Longrightarrow>
        (\<forall>v. r = Val v \<longrightarrow> (\<forall>tr. registryImage w tr n = new) \<longrightarrow>
           tags s' (parseImageNameAndTag w n) = Some new) \<Longrightarrow> Q r s'"
  shows "wp (simplePull w t) Q s"
  using t
  apply (simp add: simplePull_def wp_simps2 call_defs split del: if_split)
  apply (auto simp: wp_simps2 call_defs intro!: Q split: res.splits split del: if_split)
  done

lemma standaloneFlow_tags:
  assumes t: "imageNameFromConfig t = n" "currentId t = cur"
    and ne: "parseImageNameAndTag w (getTempImageTag w n) \<noteq> parseImageNameAndTag w n"
    and Q: "\<And>r s'. (\<forall>e. r = Ret e \<longrightarrow> e = Blocked \<or> e = ScanFailed \<or> e = PullFailed) \<Longrightarrow>
        (r = Ret Blocked \<longrightarrow> (\<forall>tr. registryImage w tr n \<noteq> cur) \<longrightarrow>
           tags s' (parseImageNameAndTag w n) = Some cur) \<Longrightarrow>
        (\<forall>v. r = Val v \<longrightarrow> (\<forall>tr. registryImage w tr n = new) \<longrightarrow>
           tags s' (parseImageNameAndTag w n) = Some new \<and>
           (shouldScan t \<longrightarrow> \<not> isDigestBasedImage w n \<longrightarrow> never_fails w is_cleanup \<longrightarrow>
              tags s' (parseImageNameAndTag w (getTempImageTag w n)) = None)) \<Longrightarrow> Q r s'"
  shows "wp (standaloneFlow w t) Q s"
  unfolding standaloneFlow_def
  using t(1)
  by (auto intro!: safePull_tags[OF t ne, where new=new] simplePull_tags[OF t(1), where new=new] Q)

lemma runBody_tags:
  assumes snap: "snapshot s name = Some d" "Config d = Some cfg" "cfgImage cfg = Some n"
    and ne: "parseImageNameAndTag w (getTempImageTag w n) \<noteq> parseImageNameAndTag w n"
    and Q: "\<And>r s'. (\<forall>v. r \<noteq> Val v) \<Longrightarrow>
        (r = Ret Blocked \<longrightarrow> (\<forall>tr. registryImage w tr n \<noteq> Image d) \<longrightarrow>
           tags s' (parseImageNameAndTag w n) = Some (Image d)) \<Longrightarrow>
        (r = Ret Updated \<longrightarrow> (\<forall>tr. registryImage w tr n = new) \<longrightarrow>
           tags s' (parseImageNameAndTag w n) = Some new \<and>
           ((\<forall>tr. scannerSetting w tr \<noteq> ''none'') \<longrightarrow> never_fails w is_cleanup \<longrightarrow>
              tags s' (parseImageNameAndTag w (getTempImageTag w n)) = None)) \<Longrightarrow> Q r s'"
  shows "wp (runBody w sid name) Q s"
  apply (simp add: runBody_def wp_bnd wp_seq)
  apply (rule resolveTarget_target[OF snap])
  apply (auto split: res.splits simp: wp_bnd wp_seq early_exits_def compose_exits_def
      intro!: Q checkForUpdates_target composeFlow_exits recreateAndFinish_tags
        standaloneFlow_tags[OF _ _ ne, where cur="Image d" and new=new])
  done

lemma snapshot_upd [simp]:
  "snapshot (s\<lparr>trace := tr\<rparr>) name = snapshot s name"
  "snapshot (s\<lparr>writes := ws\<rparr>) name = snapshot s name"
  "snapshot (s\<lparr>execution := ex\<rparr>) name = snapshot s name"
  by (rule snapshot_same, simp)+

lemma run_tags:
  assumes snap: "snapshot s name = Some d" "Config d = Some cfg" "cfgImage cfg = Some n"
    and ne: "parseImageNameAndTag w (getTempImageTag w n) \<noteq> parseImageNameAndTag w n"
  shows "wp (runContainerUpdate w sid name trig)
     (\<lambda>r s'. (r = Ret Blocked \<longrightarrow> (\<forall>tr. registryImage w tr n \<noteq> Image d) \<longrightarrow>
           tags s' (parseImageNameAndTag w n) = Some (Image d)) \<and>
        (r = Ret Updated \<longrightarrow> (\<forall>tr. registryImage w tr n = new) \<longrightarrow>
           tags s' (parseImageNameAndTag w n) = Some new \<and>
           ((\<forall>tr. scannerSetting w tr \<noteq> ''none'') \<longrightarrow> never_fails w is_cleanup \<longrightarrow>
              tags s' (parseImageNameAndTag w (getTempImageTag w n)) = None))) s"
  apply (simp add: runContainerUpdate_def wp_simps2 call_defs split del: if_split)
  apply (intro conjI impI allI)
  apply (rule runBody_tags[OF _ snap(2,3) ne, where new=new])
   apply (simp add: snap)
  apply (auto split: res.splits intro!: boundaryHandler_exit)
  done





text \<open>
  C2, as the code has it. For every run that leaves through the success of the standalone
  path (line 758), the original repository:tag pair resolves to the image the registry
  served; with scanning enabled the temporary tag no longer resolves when its removal
  does not throw. The removal is best effort: when it throws, the error is ignored and
  the tag remains.
\<close>

theorem promotion_moves_original_tag:
  assumes "fst (runContainerUpdate w sid name trig s) = Ret Updated"
    and "snapshot s name = Some d" and "Config d = Some cfg" and "cfgImage cfg = Some n"
    and "\<forall>tr. registryImage w tr n = new"
    and "parseImageNameAndTag w (getTempImageTag w n) \<noteq> parseImageNameAndTag w n"
  shows "tags (snd (runContainerUpdate w sid name trig s)) (parseImageNameAndTag w n) = Some new \<and>
     ((\<forall>tr. scannerSetting w tr \<noteq> ''none'') \<and> never_fails w is_cleanup \<longrightarrow>
        tags (snd (runContainerUpdate w sid name trig s))
          (parseImageNameAndTag w (getTempImageTag w n)) = None)"
  using run_tags[OF assms(2,3,4,6), of sid trig new] assms(1,5)
  by (simp add: wp_fst_snd)

theorem promotion_moves_original_tag_witness:
  "fst (runContainerUpdate (worldScanning None) 1 ''web-1'' ''cron'' state0) = Ret Updated \<and>
   tags (snd (runContainerUpdate (worldScanning None) 1 ''web-1'' ''cron'' state0)) (''app'', ''latest'')
     = Some ''sha:bbb'' \<and>
   tags (snd (runContainerUpdate (worldScanning None) 1 ''web-1'' ''cron'' state0))
     (''app'', ''latest-pending'') = None"
proof -
  let ?w = "worldScanning None"
  have r: "fst (runContainerUpdate ?w 1 ''web-1'' ''cron'' state0) = Ret Updated"
    using scanning_run[of None] by (simp add: wp_fst_snd)
  have sn: "snapshot state0 ''web-1'' = Some (inspect web1)"
    by (simp add: snapshot_def foundContainer_def state0_def web1_def)
  have cf: "Config (inspect web1) = Some \<lparr>cfgImage = Some ''app:latest'', cfgLabels = None\<rparr>"
    by (simp add: web1_def)
  have sc: "\<forall>tr. scannerSetting ?w tr \<noteq> ''none''"
    by (simp add: worldScanning_fields)
  have reg: "\<forall>tr. registryImage ?w tr ''app:latest'' = ''sha:bbb''"
    by (simp add: worldScanning_fields world0_fields)
  have ne: "parseImageNameAndTag ?w (getTempImageTag ?w ''app:latest'')
      \<noteq> parseImageNameAndTag ?w ''app:latest''"
    by (simp add: worldScanning_fields world0_fields splitRef_def)
  have p: "parseImageNameAndTag ?w ''app:latest'' = (''app'', ''latest'')"
    "parseImageNameAndTag ?w (getTempImageTag ?w ''app:latest'') = (''app'', ''latest-pending'')"
    by (simp_all add: worldScanning_fields world0_fields splitRef_def)
  have nf: "never_fails ?w is_cleanup"
    by (simp add: never_fails_def worldScanning_fields)
  show ?thesis
    using promotion_moves_original_tag[OF r sn cf _ reg ne] r nf sc
    by (simp add: p)
qed

text \<open>
  The claim as stated fails: the runtime refuses the removal of the temporary tag at
  line 697, the run ends with the terminal status success, and the temporary tag still
  resolves to the new image.
\<close>

theorem temporary_tag_remains:
  "fst (runContainerUpdate (worldScanning (Some ''tag in use'')) 1 ''web-1'' ''cron'' state0)
     = Ret Updated \<and>
   map status (writes (snd (runContainerUpdate (worldScanning (Some ''tag in use'')) 1 ''web-1'' ''cron''
     state0))) = [None, Some success] \<and>
   parseImageNameAndTag (worldScanning (Some ''tag in use''))
       (getTempImageTag (worldScanning (Some ''tag in use'')) ''app:latest'')
     = (''app'', ''latest-pending'') \<and>
   tags (snd (runContainerUpdate (worldScanning (Some ''tag in use'')) 1 ''web-1'' ''cron'' state0))
     (''app'', ''latest-pending'') = Some ''sha:bbb''"
  using scanning_run[of "Some ''tag in use''"]
  by (simp add: wp_fst_snd worldScanning_fields world0_fields splitRef_def)


end
